theory Spec2Isabelle
  imports Main "HOL-Library.Word"
begin

section \<open>The TipJar contract (smart_contracts/tip_jar/contract.algo.ts)\<close>

text \<open>
  The contract is an Algorand application written in Algorand TypeScript. Each public
  method is one application call; the call either returns or is rejected as a whole.
  The embedding keeps the method bodies in the order of the source:
  \<^item> \<open>uint64\<close> is \<open>64 word\<close>. The AVM does not wrap: \<open>+\<close>, \<open>-\<close> and \<open>*\<close> fail the call
    on overflow or underflow, so the three operations are checked (\<open>add64\<close>, \<open>sub64\<close>,
    \<open>mul64\<close>) and the failure is a branch of every method that computes;
  \<^item> an \<open>Account\<close> is its 32 bytes, and \<open>bytes\<close> is a list of bytes; a TypeScript
    \<open>string\<close> is the list of its UTF-16 code units (\<open>str\<close>), which is what \<open>.length\<close>
    counts. The literals of the source are written as Isabelle strings and turned into
    code units by \<open>lit\<close>; the messages of \<open>assert\<close> and the lines of \<open>log\<close>, which are
    always literals, stay Isabelle strings;
  \<^item> global state is the fields of the record \<open>state\<close>; local state is the field
    \<open>locals\<close>, one record of slots per account. A \<open>LocalState\<close> slot is declared without
    an initial value: it holds nothing (\<open>None\<close>) until a method writes it, and reading
    \<open>.value\<close> of a slot that holds nothing fails the call (\<open>ValueNotSet\<close>);
  \<^item> the inner transactions a call submits and the lines it logs are appended to the
    fields \<open>itxns\<close> and \<open>logs\<close> of the state, in order;
  \<^item> a failing \<open>assert\<close>, an arithmetic failure and an inner transaction the ledger
    refuses end the method with \<open>Rejected e s\<close>, where \<open>s\<close> is the state the method had
    reached at that point. The ledger then discards that state (\<open>commit\<close>).
\<close>

subsection \<open>Values\<close>

type_synonym uint64 = "64 word"
type_synonym bytes = "char list"
type_synonym str = "16 word list"

definition lit :: "string \<Rightarrow> str" where
  "lit cs = map of_char cs"

datatype account = Account (bytes: bytes)

definition zeroAddress :: account where
  "zeroAddress = Account (replicate 32 (CHR 0x00))"

definition add64 :: "uint64 \<Rightarrow> uint64 \<Rightarrow> uint64 option" where
  "add64 a b = (if unat a + unat b < 2 ^ 64 then Some (a + b) else None)"

definition sub64 :: "uint64 \<Rightarrow> uint64 \<Rightarrow> uint64 option" where
  "sub64 a b = (if unat b \<le> unat a then Some (a - b) else None)"

definition mul64 :: "uint64 \<Rightarrow> uint64 \<Rightarrow> uint64 option" where
  "mul64 a b = (if unat a * unat b < 2 ^ 64 then Some (a * b) else None)"

text \<open>The decimal digits of a number, for the template strings that print a \<open>uint64\<close>.\<close>

fun decimal :: "nat \<Rightarrow> string" where
  "decimal n =
     (if n < 10 then [''0123456789'' ! n]
      else decimal (n div 10) @ [''0123456789'' ! (n mod 10)])"

declare decimal.simps [simp del]

subsection \<open>Transactions\<close>

text \<open>The fields of the grouped payment that \<open>sendTip\<close> reads.\<close>

record payment_txn =
  amount :: uint64
  receiver :: account
  closeRemainderTo :: account
  rekeyTo :: account

text \<open>The two kinds of inner transaction the contract submits, with the fields it sets.\<close>

datatype itxn =
    Payment account uint64 uint64
  | AssetConfig uint64 uint64 bool str str uint64

text \<open>
  What a call sees of its transaction and of the ledger: \<open>Txn.sender\<close>,
  \<open>Global.currentApplicationAddress\<close>, the balance of that address, and whether the ledger
  accepts an inner transaction when it is submitted.
\<close>

record txn_context =
  sender :: account
  currentApplicationAddress :: account
  appBalance :: uint64
  submitOk :: "itxn \<Rightarrow> bool"

subsection \<open>State\<close>

record local_state =
  creatorName :: "str option"
  creatorBio :: "str option"
  creatorCategory :: "str option"
  tipsReceived :: "uint64 option"
  tipCount :: "uint64 option"
  isRegistered :: "uint64 option"
  profileImageUrl :: "str option"
  revSplitAddress :: "str option"
  revSplitPercent :: "uint64 option"
  revSplitName :: "str option"

record state =
  totalCreators :: uint64
  totalTipsProcessed :: uint64
  totalTipCount :: uint64
  minTipAmount :: uint64
  platformFeeBps :: uint64
  adminAddress :: bytes
  pendingAdminAddress :: bytes
  isPaused :: uint64
  totalBadgesMinted :: uint64
  totalFeesAccumulated :: uint64
  bronzeThreshold :: uint64
  silverThreshold :: uint64
  goldThreshold :: uint64
  diamondThreshold :: uint64
  locals :: "account \<Rightarrow> local_state"
  itxns :: "itxn list"
  logs :: "string list"

text \<open>The local state of an account for which no slot has been written.\<close>

definition unset_local :: local_state where
  "unset_local =
     \<lparr>creatorName = None, creatorBio = None, creatorCategory = None, tipsReceived = None,
      tipCount = None, isRegistered = None, profileImageUrl = None, revSplitAddress = None,
      revSplitPercent = None, revSplitName = None\<rparr>"

text \<open>
  The state of a new application before \<open>createApplication\<close> runs: the declared initial
  values, the two admin slots not yet set, no local state, nothing submitted or logged.
\<close>

definition fresh :: state where
  "fresh =
     \<lparr>totalCreators = 0, totalTipsProcessed = 0, totalTipCount = 0,
      minTipAmount = 100000, platformFeeBps = 100, adminAddress = [],
      pendingAdminAddress = [], isPaused = 0, totalBadgesMinted = 0,
      totalFeesAccumulated = 0, bronzeThreshold = 5000000, silverThreshold = 25000000,
      goldThreshold = 100000000, diamondThreshold = 500000000,
      locals = (\<lambda>_. unset_local), itxns = [], logs = []\<rparr>"

subsection \<open>Outcomes\<close>

datatype error =
    AssertFailed string
  | ValueNotSet
  | Overflow
  | Underflow
  | ItxnFailed

datatype 'a outcome =
    Rejected error state
  | Returned 'a state

text \<open>The state the ledger keeps after a call: the new one, or the old one on rejection.\<close>

definition commit :: "state \<Rightarrow> 'a outcome \<Rightarrow> state" where
  "commit s out = (case out of Rejected e p \<Rightarrow> s | Returned r s' \<Rightarrow> s')"

text \<open>\<open>itxn. ... .submit()\<close>: the transaction is recorded, unless the ledger refuses it.\<close>

definition submit :: "txn_context \<Rightarrow> itxn \<Rightarrow> state \<Rightarrow> error + state" where
  "submit cx t s = (if submitOk cx t then Inr (s\<lparr>itxns := itxns s @ [t]\<rparr>) else Inl ItxnFailed)"

definition log :: "string \<Rightarrow> state \<Rightarrow> state" where
  "log line s = s\<lparr>logs := logs s @ [line]\<rparr>"

subsection \<open>Constants\<close>

definition MIN_CONTRACT_BALANCE :: uint64 where "MIN_CONTRACT_BALANCE = 100000"
definition MAX_NAME_LEN :: nat where "MAX_NAME_LEN = 50"
definition MAX_BIO_LEN :: nat where "MAX_BIO_LEN = 200"
definition MAX_CATEGORY_LEN :: nat where "MAX_CATEGORY_LEN = 20"
definition MAX_IMAGE_LEN :: nat where "MAX_IMAGE_LEN = 200"
definition MAX_COLLAB_NAME_LEN :: nat where "MAX_COLLAB_NAME_LEN = 50"
definition ADDR_LEN :: nat where "ADDR_LEN = 58"

subsection \<open>Guards\<close>

text \<open>A guard gives the failure of its \<open>assert\<close>, or \<open>None\<close> when the assertion holds.\<close>

definition assertNotPaused :: "state \<Rightarrow> error option" where
  "assertNotPaused s =
     (if isPaused s = 0 then None else Some (AssertFailed ''Contract is paused''))"

definition assertAdmin :: "txn_context \<Rightarrow> state \<Rightarrow> error option" where
  "assertAdmin cx s =
     (if bytes (sender cx) = adminAddress s then None
      else Some (AssertFailed ''Only admin can perform this action''))"

definition assertRegistered :: "txn_context \<Rightarrow> state \<Rightarrow> error option" where
  "assertRegistered cx s =
     (case isRegistered (locals s (sender cx)) of None \<Rightarrow> Some ValueNotSet
      | Some flag \<Rightarrow>
        if flag = 1 then None else Some (AssertFailed ''Not a registered creator''))"

subsection \<open>Creation and administration\<close>

text \<open>
  \<open>createApplication\<close> is the creation handler of the application: it runs once, in the
  call that creates the application, and cannot be called afterwards.
\<close>

definition createApplication :: "txn_context \<Rightarrow> state \<Rightarrow> unit outcome" where
  "createApplication cx s =
     Returned ()
       (log ''TipJar:Created''
         (s\<lparr>adminAddress := bytes (sender cx),
            pendingAdminAddress := [],
            totalCreators := 0,
            totalTipsProcessed := 0,
            totalTipCount := 0,
            totalFeesAccumulated := 0,
            minTipAmount := 100000,
            platformFeeBps := 100,
            isPaused := 0,
            totalBadgesMinted := 0,
            bronzeThreshold := 5000000,
            silverThreshold := 25000000,
            goldThreshold := 100000000,
            diamondThreshold := 500000000\<rparr>))"

definition pauseContract :: "txn_context \<Rightarrow> state \<Rightarrow> str outcome" where
  "pauseContract cx s =
     (case assertAdmin cx s of Some e \<Rightarrow> Rejected e s | None \<Rightarrow>
      Returned (lit ''Contract paused'') (log ''TipJar:Paused'' (s\<lparr>isPaused := 1\<rparr>)))"

definition unpauseContract :: "txn_context \<Rightarrow> state \<Rightarrow> str outcome" where
  "unpauseContract cx s =
     (case assertAdmin cx s of Some e \<Rightarrow> Rejected e s | None \<Rightarrow>
      Returned (lit ''Contract unpaused'') (log ''TipJar:Unpaused'' (s\<lparr>isPaused := 0\<rparr>)))"

definition transferAdmin :: "txn_context \<Rightarrow> account \<Rightarrow> state \<Rightarrow> str outcome" where
  "transferAdmin cx newAdmin s =
     (case assertAdmin cx s of Some e \<Rightarrow> Rejected e s | None \<Rightarrow>
      if \<not> newAdmin \<noteq> sender cx
      then Rejected (AssertFailed ''Cannot transfer to current admin'') s
      else Returned (lit ''Admin transfer initiated - new admin must call acceptAdmin()'')
             (log ''TipJar:AdminTransferInitiated''
               (s\<lparr>pendingAdminAddress := bytes newAdmin\<rparr>)))"

definition acceptAdmin :: "txn_context \<Rightarrow> state \<Rightarrow> str outcome" where
  "acceptAdmin cx s =
     (if \<not> pendingAdminAddress s \<noteq> []
      then Rejected (AssertFailed ''No pending admin transfer'') s
      else if \<not> bytes (sender cx) = pendingAdminAddress s
      then Rejected (AssertFailed ''Only pending admin can accept'') s
      else Returned (lit ''Admin role accepted'')
             (log ''TipJar:AdminTransferred''
               (s\<lparr>adminAddress := bytes (sender cx), pendingAdminAddress := []\<rparr>)))"

subsection \<open>Creator registration and profile\<close>

definition registerCreator ::
  "txn_context \<Rightarrow> str \<Rightarrow> str \<Rightarrow> str \<Rightarrow> str \<Rightarrow> state \<Rightarrow> str outcome" where
  "registerCreator cx name bio category profileImage s =
     (case assertNotPaused s of Some e \<Rightarrow> Rejected e s | None \<Rightarrow>
     (case isRegistered (locals s (sender cx)) of None \<Rightarrow> Rejected ValueNotSet s
      | Some flag \<Rightarrow>
      if \<not> flag \<noteq> 1
      then Rejected (AssertFailed ''Already registered as a creator'') s
      else if \<not> length name > 0
      then Rejected (AssertFailed ''Name cannot be empty'') s
      else if \<not> length bio > 0
      then Rejected (AssertFailed ''Bio cannot be empty'') s
      else if \<not> length category > 0
      then Rejected (AssertFailed ''Category cannot be empty'') s
      else if \<not> length name \<le> MAX_NAME_LEN
      then Rejected (AssertFailed ''Name exceeds 50 character limit'') s
      else if \<not> length bio \<le> MAX_BIO_LEN
      then Rejected (AssertFailed ''Bio exceeds 200 character limit'') s
      else if \<not> length category \<le> MAX_CATEGORY_LEN
      then Rejected (AssertFailed ''Category exceeds 20 character limit'') s
      else if \<not> length profileImage \<le> MAX_IMAGE_LEN
      then Rejected (AssertFailed ''Profile image URL exceeds 200 character limit'') s
      else
        let s1 = s\<lparr>locals := (locals s)(sender cx := (locals s (sender cx))
                   \<lparr>creatorName := Some name,
                    creatorBio := Some bio,
                    creatorCategory := Some category,
                    profileImageUrl := Some profileImage,
                    tipsReceived := Some 0,
                    tipCount := Some 0,
                    isRegistered := Some 1,
                    revSplitAddress := Some [],
                    revSplitPercent := Some 0,
                    revSplitName := Some []\<rparr>)\<rparr>
        in (case add64 (totalCreators s1) 1 of None \<Rightarrow> Rejected Overflow s1 | Some n \<Rightarrow>
           Returned (lit ''Creator '' @ name @ lit '' registered successfully'')
             (log ''TipJar:CreatorRegistered'' (s1\<lparr>totalCreators := n\<rparr>)))))"

definition updateProfile ::
  "txn_context \<Rightarrow> str \<Rightarrow> str \<Rightarrow> str \<Rightarrow> str \<Rightarrow> state \<Rightarrow> str outcome" where
  "updateProfile cx name bio category profileImage s =
     (case assertNotPaused s of Some e \<Rightarrow> Rejected e s | None \<Rightarrow>
     (case assertRegistered cx s of Some e \<Rightarrow> Rejected e s | None \<Rightarrow>
      if \<not> (length name > 0 \<and> length name \<le> MAX_NAME_LEN)
      then Rejected (AssertFailed ''Name must be 1-50 characters'') s
      else if \<not> (length bio > 0 \<and> length bio \<le> MAX_BIO_LEN)
      then Rejected (AssertFailed ''Bio must be 1-200 characters'') s
      else if \<not> (length category > 0 \<and> length category \<le> MAX_CATEGORY_LEN)
      then Rejected (AssertFailed ''Category must be 1-20 characters'') s
      else if \<not> length profileImage \<le> MAX_IMAGE_LEN
      then Rejected (AssertFailed ''Profile image URL exceeds 200 character limit'') s
      else Returned (lit ''Profile updated successfully'')
             (log ''TipJar:ProfileUpdated''
               (s\<lparr>locals := (locals s)(sender cx := (locals s (sender cx))
                   \<lparr>creatorName := Some name,
                    creatorBio := Some bio,
                    creatorCategory := Some category,
                    profileImageUrl := Some profileImage\<rparr>)\<rparr>))))"

subsection \<open>Revenue split\<close>

definition setRevenueSplit ::
  "txn_context \<Rightarrow> str \<Rightarrow> str \<Rightarrow> uint64 \<Rightarrow> state \<Rightarrow> str outcome" where
  "setRevenueSplit cx collaboratorAddr collaboratorName splitPercent s =
     (case assertNotPaused s of Some e \<Rightarrow> Rejected e s | None \<Rightarrow>
     (case assertRegistered cx s of Some e \<Rightarrow> Rejected e s | None \<Rightarrow>
      if \<not> splitPercent \<ge> 1
      then Rejected
             (AssertFailed ''Split must be at least 1%. Use removeRevenueSplit to clear'') s
      else if \<not> splitPercent \<le> 50
      then Rejected (AssertFailed ''Split cannot exceed 50%'') s
      else if \<not> length collaboratorAddr = ADDR_LEN
      then Rejected (AssertFailed ''Invalid collaborator address length'') s
      else if \<not> length collaboratorName > 0
      then Rejected (AssertFailed ''Collaborator name cannot be empty'') s
      else if \<not> length collaboratorName \<le> MAX_COLLAB_NAME_LEN
      then Rejected (AssertFailed ''Collaborator name exceeds 50 character limit'') s
      else Returned (lit ''Revenue split configured'')
             (log ''TipJar:RevenueSplitSet''
               (s\<lparr>locals := (locals s)(sender cx := (locals s (sender cx))
                   \<lparr>revSplitAddress := Some collaboratorAddr,
                    revSplitName := Some collaboratorName,
                    revSplitPercent := Some splitPercent\<rparr>)\<rparr>))))"

definition removeRevenueSplit :: "txn_context \<Rightarrow> state \<Rightarrow> str outcome" where
  "removeRevenueSplit cx s =
     (case assertNotPaused s of Some e \<Rightarrow> Rejected e s | None \<Rightarrow>
     (case assertRegistered cx s of Some e \<Rightarrow> Rejected e s | None \<Rightarrow>
      Returned (lit ''Revenue split removed'')
        (log ''TipJar:RevenueSplitRemoved''
          (s\<lparr>locals := (locals s)(sender cx := (locals s (sender cx))
              \<lparr>revSplitAddress := Some [],
               revSplitName := Some [],
               revSplitPercent := Some 0\<rparr>)\<rparr>))))"

definition getRevenueSplitPercent :: "account \<Rightarrow> state \<Rightarrow> uint64 outcome" where
  "getRevenueSplitPercent creator s =
     (case revSplitPercent (locals s creator) of None \<Rightarrow> Rejected ValueNotSet s
      | Some percent \<Rightarrow> Returned percent s)"

subsection \<open>Tipping\<close>

text \<open>
  The payout branch of \<open>sendTip\<close> (the \<open>if (splitPercent > 0)\<close> statement): with a split the
  collaborator's amount is computed and only the creator's amount is paid; without one
  the creator is paid the whole amount after the fee.
\<close>

definition payout ::
  "txn_context \<Rightarrow> account \<Rightarrow> uint64 \<Rightarrow> uint64 \<Rightarrow> state \<Rightarrow> error + state" where
  "payout cx creator afterFee splitPercent s =
     (if splitPercent > 0 then
        (case mul64 afterFee splitPercent of None \<Rightarrow> Inl Overflow | Some p \<Rightarrow>
         let collaboratorAmount = p div 100 in
         (case sub64 afterFee collaboratorAmount of None \<Rightarrow> Inl Underflow
          | Some creatorAmount \<Rightarrow> submit cx (Payment creator creatorAmount 0) s))
      else submit cx (Payment creator afterFee 0) s)"

definition sendTip ::
  "txn_context \<Rightarrow> account \<Rightarrow> str \<Rightarrow> payment_txn \<Rightarrow> state \<Rightarrow> str outcome" where
  "sendTip cx creator message tipPayment s =
     (case assertNotPaused s of Some e \<Rightarrow> Rejected e s | None \<Rightarrow>
     (case isRegistered (locals s creator) of None \<Rightarrow> Rejected ValueNotSet s
      | Some flag \<Rightarrow>
      if \<not> flag = 1
      then Rejected (AssertFailed ''Recipient is not a registered creator'') s
      else
        let tipAmount = amount tipPayment in
        if \<not> tipAmount \<ge> minTipAmount s
        then Rejected (AssertFailed ''Tip amount below minimum'') s
        else if \<not> receiver tipPayment = currentApplicationAddress cx
        then Rejected (AssertFailed ''Payment must be sent to the contract'') s
        else if \<not> closeRemainderTo tipPayment = zeroAddress
        then Rejected (AssertFailed ''Close remainder to must be zero address'') s
        else if \<not> rekeyTo tipPayment = zeroAddress
        then Rejected (AssertFailed ''Rekey to must be zero address'') s
        else if \<not> sender cx \<noteq> creator
        then Rejected (AssertFailed ''Cannot tip yourself'') s
        else
          (case mul64 tipAmount (platformFeeBps s) of None \<Rightarrow> Rejected Overflow s
           | Some scaled \<Rightarrow>
          let feeAmount = scaled div 10000 in
          (case sub64 tipAmount feeAmount of None \<Rightarrow> Rejected Underflow s
           | Some afterFee \<Rightarrow>
          (case add64 (totalFeesAccumulated s) feeAmount of None \<Rightarrow> Rejected Overflow s
           | Some fees \<Rightarrow>
          let s1 = s\<lparr>totalFeesAccumulated := fees\<rparr> in
          (case revSplitPercent (locals s1 creator) of None \<Rightarrow> Rejected ValueNotSet s1
           | Some splitPercent \<Rightarrow>
          (case payout cx creator afterFee splitPercent s1 of Inl e \<Rightarrow> Rejected e s1
           | Inr s2 \<Rightarrow>
          (case tipsReceived (locals s2 creator) of None \<Rightarrow> Rejected ValueNotSet s2
           | Some before \<Rightarrow>
          (case add64 before tipAmount of None \<Rightarrow> Rejected Overflow s2
           | Some received \<Rightarrow>
          let s3 = s2\<lparr>locals := (locals s2)(creator := (locals s2 creator)
                      \<lparr>tipsReceived := Some received\<rparr>)\<rparr> in
          (case tipCount (locals s3 creator) of None \<Rightarrow> Rejected ValueNotSet s3
           | Some tipsBefore \<Rightarrow>
          (case add64 tipsBefore 1 of None \<Rightarrow> Rejected Overflow s3
           | Some counted \<Rightarrow>
          let s4 = s3\<lparr>locals := (locals s3)(creator := (locals s3 creator)
                      \<lparr>tipCount := Some counted\<rparr>)\<rparr> in
          (case add64 (totalTipsProcessed s4) tipAmount of None \<Rightarrow> Rejected Overflow s4
           | Some processed \<Rightarrow>
          let s5 = s4\<lparr>totalTipsProcessed := processed\<rparr> in
          (case add64 (totalTipCount s5) 1 of None \<Rightarrow> Rejected Overflow s5
           | Some tips \<Rightarrow>
          Returned
            (lit (''Tip of '' @ decimal (unat tipAmount) @ '' microALGO sent to creator''))
            (log ''TipJar:TipSent'' (s5\<lparr>totalTipCount := tips\<rparr>)))))))))))))))"

subsection \<open>Badges\<close>

definition tierName :: "uint64 \<Rightarrow> string" where
  "tierName badgeTier =
     (if badgeTier = 1 then ''Bronze''
      else if badgeTier = 2 then ''Silver''
      else if badgeTier = 3 then ''Gold''
      else ''Diamond'')"

definition mintBadge ::
  "txn_context \<Rightarrow> account \<Rightarrow> uint64 \<Rightarrow> account \<Rightarrow> state \<Rightarrow> str outcome" where
  "mintBadge cx supporter badgeTier creatorAddr s =
     (case assertNotPaused s of Some e \<Rightarrow> Rejected e s | None \<Rightarrow>
      if \<not> (bytes (sender cx) = adminAddress s \<or> sender cx = creatorAddr)
      then Rejected (AssertFailed ''Only admin or creator can mint badges'') s
      else if \<not> (badgeTier \<ge> 1 \<and> badgeTier \<le> 4)
      then Rejected (AssertFailed ''Invalid badge tier'') s
      else
        (case isRegistered (locals s creatorAddr) of None \<Rightarrow> Rejected ValueNotSet s
         | Some flag \<Rightarrow>
        if \<not> flag = 1
        then Rejected (AssertFailed ''Creator is not registered'') s
        else
          (case submit cx
                 (AssetConfig 1 0 False (lit ''TJBADGE'')
                    (lit (''TipJar '' @ tierName badgeTier @ '' Badge'')) 0) s of
            Inl e \<Rightarrow> Rejected e s
          | Inr s1 \<Rightarrow>
          (case add64 (totalBadgesMinted s1) 1 of None \<Rightarrow> Rejected Overflow s1
           | Some n \<Rightarrow>
          Returned (lit (tierName badgeTier @ '' badge minted successfully''))
            (log ''TipJar:BadgeMinted'' (s1\<lparr>totalBadgesMinted := n\<rparr>))))))"

subsection \<open>Read-only getters\<close>

definition verifyTipRecord :: "account \<Rightarrow> state \<Rightarrow> uint64 outcome" where
  "verifyTipRecord creator s =
     (case isRegistered (locals s creator) of None \<Rightarrow> Rejected ValueNotSet s
      | Some flag \<Rightarrow>
      if \<not> flag = 1
      then Rejected (AssertFailed ''Not a registered creator'') s
      else
        (case tipsReceived (locals s creator) of None \<Rightarrow> Rejected ValueNotSet s
         | Some v \<Rightarrow> Returned v s))"

definition getBronzeThreshold :: "state \<Rightarrow> uint64 outcome" where
  "getBronzeThreshold s = Returned (bronzeThreshold s) s"

definition getTotalBadgesMinted :: "state \<Rightarrow> uint64 outcome" where
  "getTotalBadgesMinted s = Returned (totalBadgesMinted s) s"

definition getCreatorName :: "account \<Rightarrow> state \<Rightarrow> str outcome" where
  "getCreatorName creator s =
     (case isRegistered (locals s creator) of None \<Rightarrow> Rejected ValueNotSet s
      | Some flag \<Rightarrow>
      if \<not> flag = 1
      then Rejected (AssertFailed ''Not a registered creator'') s
      else
        (case creatorName (locals s creator) of None \<Rightarrow> Rejected ValueNotSet s
         | Some v \<Rightarrow> Returned v s))"

definition getCreatorBio :: "account \<Rightarrow> state \<Rightarrow> str outcome" where
  "getCreatorBio creator s =
     (case isRegistered (locals s creator) of None \<Rightarrow> Rejected ValueNotSet s
      | Some flag \<Rightarrow>
      if \<not> flag = 1
      then Rejected (AssertFailed ''Not a registered creator'') s
      else
        (case creatorBio (locals s creator) of None \<Rightarrow> Rejected ValueNotSet s
         | Some v \<Rightarrow> Returned v s))"

definition getCreatorCategory :: "account \<Rightarrow> state \<Rightarrow> str outcome" where
  "getCreatorCategory creator s =
     (case isRegistered (locals s creator) of None \<Rightarrow> Rejected ValueNotSet s
      | Some flag \<Rightarrow>
      if \<not> flag = 1
      then Rejected (AssertFailed ''Not a registered creator'') s
      else
        (case creatorCategory (locals s creator) of None \<Rightarrow> Rejected ValueNotSet s
         | Some v \<Rightarrow> Returned v s))"

definition getTipsReceived :: "account \<Rightarrow> state \<Rightarrow> uint64 outcome" where
  "getTipsReceived creator s =
     (case isRegistered (locals s creator) of None \<Rightarrow> Rejected ValueNotSet s
      | Some flag \<Rightarrow>
      if \<not> flag = 1
      then Rejected (AssertFailed ''Not a registered creator'') s
      else
        (case tipsReceived (locals s creator) of None \<Rightarrow> Rejected ValueNotSet s
         | Some v \<Rightarrow> Returned v s))"

definition getTipCount :: "account \<Rightarrow> state \<Rightarrow> uint64 outcome" where
  "getTipCount creator s =
     (case isRegistered (locals s creator) of None \<Rightarrow> Rejected ValueNotSet s
      | Some flag \<Rightarrow>
      if \<not> flag = 1
      then Rejected (AssertFailed ''Not a registered creator'') s
      else
        (case tipCount (locals s creator) of None \<Rightarrow> Rejected ValueNotSet s
         | Some v \<Rightarrow> Returned v s))"

definition getPlatformStats :: "state \<Rightarrow> uint64 outcome" where
  "getPlatformStats s = Returned (totalTipsProcessed s) s"

definition getTotalCreators :: "state \<Rightarrow> uint64 outcome" where
  "getTotalCreators s = Returned (totalCreators s) s"

definition getTotalTipCount :: "state \<Rightarrow> uint64 outcome" where
  "getTotalTipCount s = Returned (totalTipCount s) s"

subsection \<open>Admin settings\<close>

definition setMinTipAmount :: "txn_context \<Rightarrow> uint64 \<Rightarrow> state \<Rightarrow> str outcome" where
  "setMinTipAmount cx newMin s =
     (case assertAdmin cx s of Some e \<Rightarrow> Rejected e s | None \<Rightarrow>
      if \<not> newMin \<ge> 10000
      then Rejected
             (AssertFailed ''Minimum tip must be at least 0.01 ALGO (10_000 microALGO)'') s
      else Returned (lit ''Minimum tip amount updated'')
             (log ''TipJar:MinTipUpdated'' (s\<lparr>minTipAmount := newMin\<rparr>)))"

definition setPlatformFee :: "txn_context \<Rightarrow> uint64 \<Rightarrow> state \<Rightarrow> str outcome" where
  "setPlatformFee cx newFeeBps s =
     (case assertAdmin cx s of Some e \<Rightarrow> Rejected e s | None \<Rightarrow>
      if \<not> newFeeBps \<le> 1000
      then Rejected (AssertFailed ''Fee cannot exceed 10%'') s
      else Returned (lit ''Platform fee updated'')
             (log ''TipJar:FeeUpdated'' (s\<lparr>platformFeeBps := newFeeBps\<rparr>)))"

text \<open>
  In \<open>withdrawPlatformFees\<close> the subtraction \<open>contractBalance - amount\<close> is itself checked
  by the AVM, before the comparison with the minimum balance.
\<close>

definition withdrawPlatformFees :: "txn_context \<Rightarrow> uint64 \<Rightarrow> state \<Rightarrow> str outcome" where
  "withdrawPlatformFees cx amt s =
     (case assertAdmin cx s of Some e \<Rightarrow> Rejected e s | None \<Rightarrow>
      if \<not> amt > 0
      then Rejected (AssertFailed ''Withdrawal amount must be positive'') s
      else if \<not> amt \<le> totalFeesAccumulated s
      then Rejected (AssertFailed ''Amount exceeds accumulated fees'') s
      else
        let contractBalance = appBalance cx in
        (case sub64 contractBalance amt of None \<Rightarrow> Rejected Underflow s
         | Some remaining \<Rightarrow>
        if \<not> remaining \<ge> MIN_CONTRACT_BALANCE
        then Rejected
               (AssertFailed ''Withdrawal would leave contract below minimum balance'') s
        else
          (case submit cx (Payment (sender cx) amt 0) s of Inl e \<Rightarrow> Rejected e s
           | Inr s1 \<Rightarrow>
          (case sub64 (totalFeesAccumulated s1) amt of None \<Rightarrow> Rejected Underflow s1
           | Some fees \<Rightarrow>
          Returned (lit ''Platform fees withdrawn'')
            (log ''TipJar:FeesWithdrawn'' (s1\<lparr>totalFeesAccumulated := fees\<rparr>))))))"

definition setBadgeThresholds ::
  "txn_context \<Rightarrow> uint64 \<Rightarrow> uint64 \<Rightarrow> uint64 \<Rightarrow> uint64 \<Rightarrow> state \<Rightarrow> str outcome" where
  "setBadgeThresholds cx bronze silver gold diamond s =
     (case assertAdmin cx s of Some e \<Rightarrow> Rejected e s | None \<Rightarrow>
      if \<not> (bronze < silver \<and> silver < gold \<and> gold < diamond)
      then Rejected (AssertFailed ''Thresholds must be ascending'') s
      else Returned (lit ''Badge thresholds updated'')
             (log ''TipJar:ThresholdsUpdated''
               (s\<lparr>bronzeThreshold := bronze,
                  silverThreshold := silver,
                  goldThreshold := gold,
                  diamondThreshold := diamond\<rparr>)))"

subsection \<open>Contract state queries\<close>

definition checkRegistration :: "account \<Rightarrow> state \<Rightarrow> uint64 outcome" where
  "checkRegistration acct s =
     (case isRegistered (locals s acct) of None \<Rightarrow> Rejected ValueNotSet s
      | Some flag \<Rightarrow> Returned flag s)"

definition getMinTipAmount :: "state \<Rightarrow> uint64 outcome" where
  "getMinTipAmount s = Returned (minTipAmount s) s"

definition getPlatformFee :: "state \<Rightarrow> uint64 outcome" where
  "getPlatformFee s = Returned (platformFeeBps s) s"

definition getIsPaused :: "state \<Rightarrow> uint64 outcome" where
  "getIsPaused s = Returned (isPaused s) s"

definition getTotalFeesAccumulated :: "state \<Rightarrow> uint64 outcome" where
  "getTotalFeesAccumulated s = Returned (totalFeesAccumulated s) s"

definition getAdminAddress :: "state \<Rightarrow> bytes outcome" where
  "getAdminAddress s = Returned (adminAddress s) s"

subsection \<open>Application calls\<close>

text \<open>
  One constructor per public method that can be called on the created application, with
  the method's arguments; \<open>dispatch\<close> routes a call to its method. The value a method
  returns is tagged with its ABI type.
\<close>

datatype call =
    PauseContract
  | UnpauseContract
  | TransferAdmin account
  | AcceptAdmin
  | RegisterCreator str str str str
  | UpdateProfile str str str str
  | SetRevenueSplit str str uint64
  | RemoveRevenueSplit
  | GetRevenueSplitPercent account
  | SendTip account str payment_txn
  | MintBadge account uint64 account
  | VerifyTipRecord account
  | GetBronzeThreshold
  | GetTotalBadgesMinted
  | GetCreatorName account
  | GetCreatorBio account
  | GetCreatorCategory account
  | GetTipsReceived account
  | GetTipCount account
  | GetPlatformStats
  | GetTotalCreators
  | GetTotalTipCount
  | SetMinTipAmount uint64
  | SetPlatformFee uint64
  | WithdrawPlatformFees uint64
  | SetBadgeThresholds uint64 uint64 uint64 uint64
  | CheckRegistration account
  | GetMinTipAmount
  | GetPlatformFee
  | GetIsPaused
  | GetTotalFeesAccumulated
  | GetAdminAddress

datatype retval = Str str | U64 uint64 | Byt bytes

primrec dispatch :: "txn_context \<Rightarrow> call \<Rightarrow> state \<Rightarrow> retval outcome" where
  "dispatch cx PauseContract = (\<lambda>s. map_outcome Str (pauseContract cx s))"
| "dispatch cx UnpauseContract = (\<lambda>s. map_outcome Str (unpauseContract cx s))"
| "dispatch cx (TransferAdmin newAdmin) = (\<lambda>s. map_outcome Str (transferAdmin cx newAdmin s))"
| "dispatch cx AcceptAdmin = (\<lambda>s. map_outcome Str (acceptAdmin cx s))"
| "dispatch cx (RegisterCreator name bio category profileImage) =
     (\<lambda>s. map_outcome Str (registerCreator cx name bio category profileImage s))"
| "dispatch cx (UpdateProfile name bio category profileImage) =
     (\<lambda>s. map_outcome Str (updateProfile cx name bio category profileImage s))"
| "dispatch cx (SetRevenueSplit collaboratorAddr collaboratorName splitPercent) =
     (\<lambda>s. map_outcome Str
        (setRevenueSplit cx collaboratorAddr collaboratorName splitPercent s))"
| "dispatch cx RemoveRevenueSplit = (\<lambda>s. map_outcome Str (removeRevenueSplit cx s))"
| "dispatch cx (GetRevenueSplitPercent creator) =
     (\<lambda>s. map_outcome U64 (getRevenueSplitPercent creator s))"
| "dispatch cx (SendTip creator message tipPayment) =
     (\<lambda>s. map_outcome Str (sendTip cx creator message tipPayment s))"
| "dispatch cx (MintBadge supporter badgeTier creatorAddr) =
     (\<lambda>s. map_outcome Str (mintBadge cx supporter badgeTier creatorAddr s))"
| "dispatch cx (VerifyTipRecord creator) = (\<lambda>s. map_outcome U64 (verifyTipRecord creator s))"
| "dispatch cx GetBronzeThreshold = (\<lambda>s. map_outcome U64 (getBronzeThreshold s))"
| "dispatch cx GetTotalBadgesMinted = (\<lambda>s. map_outcome U64 (getTotalBadgesMinted s))"
| "dispatch cx (GetCreatorName creator) = (\<lambda>s. map_outcome Str (getCreatorName creator s))"
| "dispatch cx (GetCreatorBio creator) = (\<lambda>s. map_outcome Str (getCreatorBio creator s))"
| "dispatch cx (GetCreatorCategory creator) =
     (\<lambda>s. map_outcome Str (getCreatorCategory creator s))"
| "dispatch cx (GetTipsReceived creator) = (\<lambda>s. map_outcome U64 (getTipsReceived creator s))"
| "dispatch cx (GetTipCount creator) = (\<lambda>s. map_outcome U64 (getTipCount creator s))"
| "dispatch cx GetPlatformStats = (\<lambda>s. map_outcome U64 (getPlatformStats s))"
| "dispatch cx GetTotalCreators = (\<lambda>s. map_outcome U64 (getTotalCreators s))"
| "dispatch cx GetTotalTipCount = (\<lambda>s. map_outcome U64 (getTotalTipCount s))"
| "dispatch cx (SetMinTipAmount newMin) = (\<lambda>s. map_outcome Str (setMinTipAmount cx newMin s))"
| "dispatch cx (SetPlatformFee newFeeBps) =
     (\<lambda>s. map_outcome Str (setPlatformFee cx newFeeBps s))"
| "dispatch cx (WithdrawPlatformFees amt) =
     (\<lambda>s. map_outcome Str (withdrawPlatformFees cx amt s))"
| "dispatch cx (SetBadgeThresholds bronze silver gold diamond) =
     (\<lambda>s. map_outcome Str (setBadgeThresholds cx bronze silver gold diamond s))"
| "dispatch cx (CheckRegistration acct) = (\<lambda>s. map_outcome U64 (checkRegistration acct s))"
| "dispatch cx GetMinTipAmount = (\<lambda>s. map_outcome U64 (getMinTipAmount s))"
| "dispatch cx GetPlatformFee = (\<lambda>s. map_outcome U64 (getPlatformFee s))"
| "dispatch cx GetIsPaused = (\<lambda>s. map_outcome U64 (getIsPaused s))"
| "dispatch cx GetTotalFeesAccumulated = (\<lambda>s. map_outcome U64 (getTotalFeesAccumulated s))"
| "dispatch cx GetAdminAddress = (\<lambda>s. map_outcome Byt (getAdminAddress s))"

text \<open>One call on the ledger: the method runs, and its state is kept only if it returns.\<close>

definition step :: "txn_context \<Rightarrow> call \<Rightarrow> state \<Rightarrow> state" where
  "step cx c s = commit s (dispatch cx c s)"

text \<open>
  The states of a deployed contract: the creation call runs \<open>createApplication\<close> on the
  fresh state, and any number of calls follow, by any senders.
\<close>

inductive reachable :: "state \<Rightarrow> bool" where
  created: "reachable (commit fresh (createApplication cx fresh))"
| called: "reachable s \<Longrightarrow> reachable (step cx c s)"

subsection \<open>Sets and sums over the profiles\<close>

definition registered :: "state \<Rightarrow> account set" where
  "registered s = {a. isRegistered (locals s a) = Some 1}"

text \<open>The number a counter slot holds; a slot that holds nothing counts as 0.\<close>

definition held :: "uint64 option \<Rightarrow> nat" where
  "held slot = (case slot of None \<Rightarrow> 0 | Some v \<Rightarrow> unat v)"

definition sumTipsReceived :: "state \<Rightarrow> nat" where
  "sumTipsReceived s = (\<Sum>a \<in> registered s. held (tipsReceived (locals s a)))"

definition sumTipCount :: "state \<Rightarrow> nat" where
  "sumTipCount s = (\<Sum>a \<in> registered s. held (tipCount (locals s a)))"

text \<open>
  The bookkeeping of tips balances: the registered accounts are finitely many, their
  \<open>tipsReceived\<close> add up to \<open>totalTipsProcessed\<close>, their \<open>tipCount\<close> to \<open>totalTipCount\<close>,
  and they are as many as \<open>totalCreators\<close> says.
\<close>

definition conserved :: "state \<Rightarrow> bool" where
  "conserved s \<longleftrightarrow>
     finite (registered s)
     \<and> sumTipsReceived s = unat (totalTipsProcessed s)
     \<and> sumTipCount s = unat (totalTipCount s)
     \<and> card (registered s) = unat (totalCreators s)"

text \<open>Two states with the same registrations, per-profile counters and platform totals.\<close>

definition sameCounters :: "state \<Rightarrow> state \<Rightarrow> bool" where
  "sameCounters s s' \<longleftrightarrow>
     (\<forall>a. isRegistered (locals s' a) = isRegistered (locals s a)
        \<and> tipsReceived (locals s' a) = tipsReceived (locals s a)
        \<and> tipCount (locals s' a) = tipCount (locals s a))
     \<and> totalTipsProcessed s' = totalTipsProcessed s
     \<and> totalTipCount s' = totalTipCount s
     \<and> totalCreators s' = totalCreators s"

subsection \<open>What a call pays out of the contract's account\<close>

text \<open>
  The balance of the application address is kept by the ledger, not by the contract: the grouped
  payment of a tip adds its amount to it, and every inner payment takes its amount from it.
  \<open>emitted\<close> is the list of inner transactions a call has added, \<open>paidOut\<close> the amount a list of
  inner transactions takes out of the account, and \<open>paidTo\<close> the part of it that goes to one
  account.
\<close>

definition emitted :: "state \<Rightarrow> state \<Rightarrow> itxn list" where
  "emitted s s' = drop (length (itxns s)) (itxns s')"

fun paidTo :: "account \<Rightarrow> itxn list \<Rightarrow> nat" where
  "paidTo a [] = 0"
| "paidTo a (Payment to amt fee # ts) = (if to = a then unat amt else 0) + paidTo a ts"
| "paidTo a (AssetConfig supply decimals frozen unitName assetName fee # ts) = paidTo a ts"

fun paidOut :: "itxn list \<Rightarrow> nat" where
  "paidOut [] = 0"
| "paidOut (Payment to amt fee # ts) = unat amt + paidOut ts"
| "paidOut (AssetConfig supply decimals frozen unitName assetName fee # ts) = paidOut ts"

subsection \<open>A deployment to evaluate on\<close>

text \<open>
  Four accounts and the application's own account, each 32 bytes, and the context of a
  call by one of them: the application holds 10 Algo and the ledger accepts what the
  contract submits.
\<close>

definition admin :: account where
  "admin = Account ''admin-account-000000000000000001''"

definition creatorC :: account where
  "creatorC = Account ''creator-account-0000000000000001''"

definition supporterS :: account where
  "supporterS = Account ''supporter-account-00000000000001''"

definition outsider :: account where
  "outsider = Account ''outsider-account-000000000000001''"

definition tipjarApp :: account where
  "tipjarApp = Account ''tipjar-application-account-00001''"

definition calledBy :: "account \<Rightarrow> txn_context" where
  "calledBy a =
     \<lparr>sender = a, currentApplicationAddress = tipjarApp, appBalance = 10000000,
      submitOk = (\<lambda>t. True)\<rparr>"

definition tipOf :: "uint64 \<Rightarrow> payment_txn" where
  "tipOf n =
     \<lparr>amount = n, receiver = tipjarApp, closeRemainderTo = zeroAddress,
      rekeyTo = zeroAddress\<rparr>"

text \<open>The application created by \<open>admin\<close>, and the same application paused.\<close>

definition deployed :: state where
  "deployed = commit fresh (createApplication (calledBy admin) fresh)"

definition pausedDeployed :: state where
  "pausedDeployed = step (calledBy admin) PauseContract deployed"

text \<open>The admin of the new deployment proposes \<open>outsider\<close>, who accepts.\<close>

definition pendingHandover :: state where
  "pendingHandover = step (calledBy admin) (TransferAdmin outsider) deployed"

definition handedOver :: state where
  "handedOver = step (calledBy outsider) AcceptAdmin pendingHandover"

text \<open>
  The states with a creator are set up directly, by writing the local slots of
  \<open>creatorC\<close>: no sequence of calls leads to them from creation, where every local slot
  holds nothing and stays so (\<open>reachable_unset\<close> below). In \<open>withSlot\<close> only the
  \<open>isRegistered\<close> slot has been written, with 0; in \<open>withCreator\<close> all ten slots hold the
  profile that \<open>registerCreator\<close> writes, and \<open>totalCreators\<close> counts it. The states after
  them are the results of calls made on these.
\<close>

definition withSlot :: state where
  "withSlot =
     deployed\<lparr>locals := (\<lambda>a. unset_local)(creatorC := unset_local\<lparr>isRegistered := Some 0\<rparr>)\<rparr>"

definition profileC :: local_state where
  "profileC =
     \<lparr>creatorName = Some (lit ''Cleo''), creatorBio = Some (lit ''Prints and zines''),
      creatorCategory = Some (lit ''art''), tipsReceived = Some 0, tipCount = Some 0,
      isRegistered = Some 1, profileImageUrl = Some [], revSplitAddress = Some [],
      revSplitPercent = Some 0, revSplitName = Some []\<rparr>"

definition withCreator :: state where
  "withCreator =
     deployed\<lparr>totalCreators := 1, locals := (\<lambda>a. unset_local)(creatorC := profileC)\<rparr>"

text \<open>A supporter tips the creator 2 Algo.\<close>

definition afterTip :: state where
  "afterTip =
     step (calledBy supporterS) (SendTip creatorC (lit ''thanks'') (tipOf 2000000)) withCreator"

text \<open>
  The creator sets a 20% split with a collaborator, named by the 58 characters of an
  Algorand address, and the supporter tips 1 Algo.
\<close>

definition collaboratorAddress :: str where
  "collaboratorAddress =
     lit ''MNXWY3DBMIWWCY3DN52W45BNGAYDAMBQGAYDAMBQGAYDAMBQGAYZG6PTAQ''"

definition withSplit :: state where
  "withSplit =
     step (calledBy creatorC) (SetRevenueSplit collaboratorAddress (lit ''Kai'') 20) withCreator"

definition afterSplitTip :: state where
  "afterSplitTip =
     step (calledBy supporterS) (SendTip creatorC (lit ''encore'') (tipOf 1000000)) withSplit"

text \<open>After the 2 Algo tip the admin pauses the contract.\<close>

definition pausedTip :: state where
  "pausedTip = step (calledBy admin) PauseContract afterTip"


section \<open>Properties\<close>

subsection \<open>Checked arithmetic and literals\<close>

lemma length_lit [simp]: "length (lit cs) = length cs"
  by (simp add: lit_def)

lemma add64_Some: "add64 a b = Some c \<longleftrightarrow> unat a + unat b < 2 ^ 64 \<and> c = a + b"
  by (auto simp: add64_def)

lemma add64_unat: "add64 a b = Some c \<Longrightarrow> unat c = unat a + unat b"
  by (auto simp: add64_def unat_word_ariths split: if_splits)

lemma sub64_unat: "sub64 a b = Some c \<Longrightarrow> unat b \<le> unat a \<and> unat c = unat a - unat b"
  by (auto simp: sub64_def unat_sub_if' split: if_splits)

lemma mul64_unat: "mul64 a b = Some c \<Longrightarrow> unat c = unat a * unat b"
  by (auto simp: mul64_def unat_word_ariths split: if_splits)

lemma div64_unat: "unat ((a :: uint64) div b) = unat a div unat b"
  by (simp add: unat_div)

subsection \<open>What a successful tip does\<close>

lemma payout_Inr:
  assumes "payout cx creator afterFee p s = Inr s'"
  shows "\<exists>paid. s' = s\<lparr>itxns := itxns s @ [Payment creator paid 0]\<rparr>
           \<and> submitOk cx (Payment creator paid 0)
           \<and> unat paid = (if p > 0 then unat afterFee - unat afterFee * unat p div 100
                          else unat afterFee)
           \<and> (p > 0 \<longrightarrow> unat afterFee * unat p div 100 \<le> unat afterFee)"
  using assms
  by (auto simp: payout_def submit_def Let_def div64_unat
           dest!: mul64_unat sub64_unat split: option.splits if_splits)

lemma sendTip_Returned:
  assumes "sendTip cx creator message tipPayment s = Returned r s'"
  shows "isPaused s = 0 \<and> isRegistered (locals s creator) = Some 1
     \<and> minTipAmount s \<le> amount tipPayment
     \<and> receiver tipPayment = currentApplicationAddress cx
     \<and> closeRemainderTo tipPayment = zeroAddress
     \<and> rekeyTo tipPayment = zeroAddress
     \<and> sender cx \<noteq> creator
     \<and> (\<exists>(fee :: uint64) (afterFee :: uint64) paid splitPercent before tipsBefore.
          revSplitPercent (locals s creator) = Some splitPercent
        \<and> tipsReceived (locals s creator) = Some before
        \<and> tipCount (locals s creator) = Some tipsBefore
        \<and> unat fee = unat (amount tipPayment) * unat (platformFeeBps s) div 10000
        \<and> unat fee \<le> unat (amount tipPayment)
        \<and> unat afterFee = unat (amount tipPayment) - unat fee
        \<and> unat paid =
            (if splitPercent > 0
             then unat afterFee - unat afterFee * unat splitPercent div 100
             else unat afterFee)
        \<and> (splitPercent > 0 \<longrightarrow> unat afterFee * unat splitPercent div 100 \<le> unat afterFee)
        \<and> unat (totalFeesAccumulated s) + unat fee < 2 ^ 64
        \<and> unat before + unat (amount tipPayment) < 2 ^ 64
        \<and> unat tipsBefore + 1 < 2 ^ 64
        \<and> unat (totalTipsProcessed s) + unat (amount tipPayment) < 2 ^ 64
        \<and> unat (totalTipCount s) + 1 < 2 ^ 64
        \<and> s' = s\<lparr>totalFeesAccumulated := totalFeesAccumulated s + fee,
                 itxns := itxns s @ [Payment creator paid 0],
                 locals := (locals s)(creator := (locals s creator)
                    \<lparr>tipsReceived := Some (before + amount tipPayment),
                     tipCount := Some (tipsBefore + 1)\<rparr>),
                 totalTipsProcessed := totalTipsProcessed s + amount tipPayment,
                 totalTipCount := totalTipCount s + 1,
                 logs := logs s @ [''TipJar:TipSent'']\<rparr>)"
proof -
  from assms obtain scaled afterFee splitPercent s2 before tipsBefore where
    g: "isPaused s = 0" "isRegistered (locals s creator) = Some 1"
       "minTipAmount s \<le> amount tipPayment"
       "receiver tipPayment = currentApplicationAddress cx"
       "closeRemainderTo tipPayment = zeroAddress"
       "rekeyTo tipPayment = zeroAddress" "sender cx \<noteq> creator"
    and m: "mul64 (amount tipPayment) (platformFeeBps s) = Some scaled"
    and a: "sub64 (amount tipPayment) (scaled div 10000) = Some afterFee"
    and f: "unat (totalFeesAccumulated s) + unat (scaled div 10000) < 2 ^ 64"
    and sp: "revSplitPercent (locals s creator) = Some splitPercent"
    and p: "payout cx creator afterFee splitPercent
              (s\<lparr>totalFeesAccumulated := totalFeesAccumulated s + scaled div 10000\<rparr>) = Inr s2"
    and rd: "tipsReceived (locals s2 creator) = Some before"
       "tipCount (locals s2 creator) = Some tipsBefore"
    and o: "unat before + unat (amount tipPayment) < 2 ^ 64"
       "unat tipsBefore + 1 < 2 ^ 64"
       "unat (totalTipsProcessed s2) + unat (amount tipPayment) < 2 ^ 64"
       "unat (totalTipCount s2) + 1 < 2 ^ 64"
    and s': "s' = s2\<lparr>locals := (locals s2)(creator := (locals s2 creator)
                    \<lparr>tipsReceived := Some (before + amount tipPayment),
                     tipCount := Some (tipsBefore + 1)\<rparr>),
                 totalTipsProcessed := totalTipsProcessed s2 + amount tipPayment,
                 totalTipCount := totalTipCount s2 + 1,
                 logs := logs s2 @ [''TipJar:TipSent'']\<rparr>"
    by (simp add: sendTip_def assertNotPaused_def Let_def log_def add64_Some
           split: option.splits if_splits sum.splits)
  from payout_Inr [OF p] obtain paid where
    s2: "s2 = s\<lparr>totalFeesAccumulated := totalFeesAccumulated s + scaled div 10000,
                  itxns := itxns s @ [Payment creator paid 0]\<rparr>"
    and paid: "unat paid =
            (if splitPercent > 0
             then unat afterFee - unat afterFee * unat splitPercent div 100
             else unat afterFee)"
    and fits: "splitPercent > 0 \<longrightarrow> unat afterFee * unat splitPercent div 100 \<le> unat afterFee"
    by auto
  have fee: "unat (scaled div 10000) =
      unat (amount tipPayment) * unat (platformFeeBps s) div 10000"
    using mul64_unat [OF m] by (simp add: div64_unat)
  have aft: "unat (scaled div 10000) \<le> unat (amount tipPayment)"
    "unat afterFee = unat (amount tipPayment) - unat (scaled div 10000)"
    using sub64_unat [OF a] by simp_all
  have rd': "tipsReceived (locals s creator) = Some before"
    "tipCount (locals s creator) = Some tipsBefore"
    using rd by (simp_all add: s2)
  show ?thesis
    apply (intro conjI g)
    apply (rule exI [of _ "scaled div 10000"])
    apply (rule exI [of _ afterFee])
    apply (rule exI [of _ paid])
    apply (rule exI [of _ splitPercent])
    apply (rule exI [of _ before])
    apply (rule exI [of _ tipsBefore])
    using fee aft paid fits f o s' sp rd' unfolding s2
    apply simp
    done
qed

subsection \<open>What the other methods do\<close>

lemma map_outcome_Returned:
  "map_outcome f out = Returned r s' \<longleftrightarrow> (\<exists>v. out = Returned v s' \<and> r = f v)"
  by (cases out) auto

lemma map_outcome_Rejected:
  "map_outcome f out = Rejected e p \<longleftrightarrow> out = Rejected e p"
  by (cases out) auto

lemma commit_map_outcome: "commit s (map_outcome f out) = commit s out"
  by (cases out) (simp_all add: commit_def)

lemma registerCreator_Returned:
  assumes "registerCreator cx name bio category profileImage s = Returned r s'"
  shows "isPaused s = 0
     \<and> (\<exists>flag. isRegistered (locals s (sender cx)) = Some flag \<and> flag \<noteq> 1)
     \<and> unat (totalCreators s) + 1 < 2 ^ 64
     \<and> r = lit ''Creator '' @ name @ lit '' registered successfully''
     \<and> s' = s\<lparr>locals := (locals s)(sender cx := (locals s (sender cx))
                   \<lparr>creatorName := Some name,
                    creatorBio := Some bio,
                    creatorCategory := Some category,
                    profileImageUrl := Some profileImage,
                    tipsReceived := Some 0,
                    tipCount := Some 0,
                    isRegistered := Some 1,
                    revSplitAddress := Some [],
                    revSplitPercent := Some 0,
                    revSplitName := Some []\<rparr>),
               totalCreators := totalCreators s + 1,
               logs := logs s @ [''TipJar:CreatorRegistered'']\<rparr>"
  using assms
  by (simp add: registerCreator_def assertNotPaused_def Let_def log_def add64_Some
        split: option.splits if_splits)

lemma mintBadge_Returned:
  assumes "mintBadge cx supporter badgeTier creatorAddr s = Returned r s'"
  shows "isPaused s = 0
     \<and> (bytes (sender cx) = adminAddress s \<or> sender cx = creatorAddr)
     \<and> 1 \<le> badgeTier \<and> badgeTier \<le> 4
     \<and> isRegistered (locals s creatorAddr) = Some 1
     \<and> unat (totalBadgesMinted s) + 1 < 2 ^ 64
     \<and> r = lit (tierName badgeTier @ '' badge minted successfully'')
     \<and> s' = s\<lparr>itxns := itxns s @
                  [AssetConfig 1 0 False (lit ''TJBADGE'')
                     (lit (''TipJar '' @ tierName badgeTier @ '' Badge'')) 0],
               totalBadgesMinted := totalBadgesMinted s + 1,
               logs := logs s @ [''TipJar:BadgeMinted'']\<rparr>"
  using assms
  by (simp add: mintBadge_def assertNotPaused_def submit_def log_def add64_Some
        split: option.splits if_splits sum.splits)

lemma withdrawPlatformFees_Returned:
  assumes "withdrawPlatformFees cx amt s = Returned r s'"
  shows "bytes (sender cx) = adminAddress s \<and> 0 < amt \<and> amt \<le> totalFeesAccumulated s
     \<and> unat amt \<le> unat (appBalance cx)
     \<and> MIN_CONTRACT_BALANCE \<le> appBalance cx - amt
     \<and> s' = s\<lparr>itxns := itxns s @ [Payment (sender cx) amt 0],
               totalFeesAccumulated := totalFeesAccumulated s - amt,
               logs := logs s @ [''TipJar:FeesWithdrawn'']\<rparr>"
  using assms
  by (simp add: withdrawPlatformFees_def assertAdmin_def submit_def log_def sub64_def Let_def
        split: option.splits if_splits sum.splits)

lemmas simple_methods =
  pauseContract_def unpauseContract_def transferAdmin_def acceptAdmin_def
  updateProfile_def setRevenueSplit_def removeRevenueSplit_def getRevenueSplitPercent_def
  verifyTipRecord_def getBronzeThreshold_def getTotalBadgesMinted_def getCreatorName_def
  getCreatorBio_def getCreatorCategory_def getTipsReceived_def getTipCount_def
  getPlatformStats_def getTotalCreators_def getTotalTipCount_def setMinTipAmount_def
  setPlatformFee_def setBadgeThresholds_def checkRegistration_def getMinTipAmount_def
  getPlatformFee_def getIsPaused_def getTotalFeesAccumulated_def getAdminAddress_def
  assertNotPaused_def assertAdmin_def assertRegistered_def log_def

lemma other_calls_sameCounters:
  assumes "dispatch cx c s = Returned r s'"
    and "\<forall>name bio category profileImage. c \<noteq> RegisterCreator name bio category profileImage"
    and "\<forall>creator message tipPayment. c \<noteq> SendTip creator message tipPayment"
  shows "sameCounters s s'"
  using assms
  by (cases c)
     (auto simp: sameCounters_def map_outcome_Returned simple_methods
           dest!: mintBadge_Returned withdrawPlatformFees_Returned
           split: option.splits if_splits)

subsection \<open>No local state from creation\<close>

text \<open>
  From its creation the contract never writes a local slot: \<open>registerCreator\<close> reads the
  caller's \<open>isRegistered\<close> slot before anything has written it, and every other method
  that writes local state first requires that slot to hold 1.
\<close>

lemma dispatch_unset:
  assumes "dispatch cx c s = Returned v s'" and "locals s = (\<lambda>a. unset_local)"
  shows "locals s' = (\<lambda>a. unset_local)"
  using assms
  by (cases c)
     (auto simp: map_outcome_Returned simple_methods unset_local_def
           dest!: mintBadge_Returned withdrawPlatformFees_Returned registerCreator_Returned
                  sendTip_Returned
           split: option.splits if_splits)

lemma reachable_unset: "reachable s \<Longrightarrow> locals s = (\<lambda>a. unset_local)"
proof (induction rule: reachable.induct)
  case (created cx)
  show ?case
    by (simp add: commit_def createApplication_def log_def fresh_def)
next
  case (called s cx c)
  show ?case
  proof (cases "dispatch cx c s")
    case (Rejected e p)
    then show ?thesis using called.IH by (simp add: step_def commit_def)
  next
    case (Returned v s')
    then have "step cx c s = s'" by (simp add: step_def commit_def)
    with dispatch_unset [OF Returned called.IH] show ?thesis by simp
  qed
qed

subsection \<open>The bookkeeping invariant\<close>

lemma held_simps [simp]: "held None = 0" "held (Some v) = unat v"
  by (simp_all add: held_def)

lemma conserved_sameCounters:
  assumes "sameCounters s s'" and "conserved s"
  shows "conserved s'"
proof -
  from assms(1) have r: "registered s' = registered s"
    and t: "\<And>a. tipsReceived (locals s' a) = tipsReceived (locals s a)"
    and c: "\<And>a. tipCount (locals s' a) = tipCount (locals s a)"
    and g: "totalTipsProcessed s' = totalTipsProcessed s"
      "totalTipCount s' = totalTipCount s" "totalCreators s' = totalCreators s"
    by (auto simp: sameCounters_def registered_def)
  show ?thesis
    using assms(2) by (simp add: conserved_def sumTipsReceived_def sumTipCount_def r t c g)
qed

lemma conserved_registerCreator:
  assumes "registerCreator cx name bio category profileImage s = Returned r s'"
    and "conserved s"
  shows "conserved s'"
proof -
  let ?a = "sender cx"
  from registerCreator_Returned [OF assms(1)] have
    new: "?a \<notin> registered s" and room: "unat (totalCreators s) + 1 < 2 ^ 64"
    and reg: "registered s' = insert ?a (registered s)"
    and zero: "tipsReceived (locals s' ?a) = Some 0" "tipCount (locals s' ?a) = Some 0"
    and rest: "\<And>b. b \<noteq> ?a \<Longrightarrow> locals s' b = locals s b"
    and g: "totalTipsProcessed s' = totalTipsProcessed s"
      "totalTipCount s' = totalTipCount s" "totalCreators s' = totalCreators s + 1"
    by (auto simp: registered_def)
  from assms(2) have fin: "finite (registered s)" by (simp add: conserved_def)
  have t: "(\<Sum>b \<in> registered s. held (tipsReceived (locals s' b)))
         = (\<Sum>b \<in> registered s. held (tipsReceived (locals s b)))"
  proof (intro sum.cong refl)
    fix b assume "b \<in> registered s"
    with new have "b \<noteq> ?a" by auto
    then show "held (tipsReceived (locals s' b)) = held (tipsReceived (locals s b))"
      by (simp add: rest)
  qed
  have c: "(\<Sum>b \<in> registered s. held (tipCount (locals s' b)))
         = (\<Sum>b \<in> registered s. held (tipCount (locals s b)))"
  proof (intro sum.cong refl)
    fix b assume "b \<in> registered s"
    with new have "b \<noteq> ?a" by auto
    then show "held (tipCount (locals s' b)) = held (tipCount (locals s b))"
      by (simp add: rest)
  qed
  have n: "unat (totalCreators s + 1) = unat (totalCreators s) + 1"
    using room by (simp add: unat_word_ariths)
  show ?thesis
    using assms(2) fin new
    by (simp add: conserved_def sumTipsReceived_def sumTipCount_def reg zero t c g n)
qed

lemma conserved_sendTip:
  assumes "sendTip cx creator message tipPayment s = Returned r s'"
    and "conserved s"
  shows "conserved s'"
proof -
  from sendTip_Returned [OF assms(1)] obtain fee paid before tipsBefore where
    isreg1: "isRegistered (locals s creator) = Some 1"
    and was: "tipsReceived (locals s creator) = Some before"
      "tipCount (locals s creator) = Some tipsBefore"
    and room: "unat before + unat (amount tipPayment) < 2 ^ 64"
      "unat tipsBefore + 1 < 2 ^ 64"
      "unat (totalTipsProcessed s) + unat (amount tipPayment) < 2 ^ 64"
      "unat (totalTipCount s) + 1 < 2 ^ 64"
    and s': "s' = s\<lparr>totalFeesAccumulated := totalFeesAccumulated s + fee,
                 itxns := itxns s @ [Payment creator paid 0],
                 locals := (locals s)(creator := (locals s creator)
                    \<lparr>tipsReceived := Some (before + amount tipPayment),
                     tipCount := Some (tipsBefore + 1)\<rparr>),
                 totalTipsProcessed := totalTipsProcessed s + amount tipPayment,
                 totalTipCount := totalTipCount s + 1,
                 logs := logs s @ [''TipJar:TipSent'']\<rparr>"
    by blast
  have isreg: "creator \<in> registered s"
    using isreg1 by (simp add: registered_def)
  have reg: "registered s' = registered s"
    using isreg1 by (auto simp: registered_def s')
  have here: "held (tipsReceived (locals s' creator))
                 = held (tipsReceived (locals s creator)) + unat (amount tipPayment)"
      "held (tipCount (locals s' creator)) = held (tipCount (locals s creator)) + 1"
    using room by (simp_all add: s' was unat_word_ariths)
  have rest: "\<And>b. b \<noteq> creator \<Longrightarrow> locals s' b = locals s b"
    by (simp add: s')
  have g: "unat (totalTipsProcessed s')
             = unat (totalTipsProcessed s) + unat (amount tipPayment)"
      "unat (totalTipCount s') = unat (totalTipCount s) + 1"
      "totalCreators s' = totalCreators s"
    using room by (simp_all add: s' unat_word_ariths)
  from assms(2) have fin: "finite (registered s)" by (simp add: conserved_def)
  have t: "(\<Sum>b \<in> registered s - {creator}. held (tipsReceived (locals s' b)))
         = (\<Sum>b \<in> registered s - {creator}. held (tipsReceived (locals s b)))"
    by (intro sum.cong) (auto simp: rest)
  have c: "(\<Sum>b \<in> registered s - {creator}. held (tipCount (locals s' b)))
         = (\<Sum>b \<in> registered s - {creator}. held (tipCount (locals s b)))"
    by (intro sum.cong) (auto simp: rest)
  show ?thesis
    using assms(2)
    by (simp add: conserved_def sumTipsReceived_def sumTipCount_def reg g
          sum.remove [OF fin isreg] here t c)
qed

lemma conserved_created: "conserved (commit fresh (createApplication cx fresh))"
  by (simp add: conserved_def sumTipsReceived_def sumTipCount_def registered_def
        commit_def createApplication_def fresh_def log_def unset_local_def)

lemma conserved_step:
  assumes "conserved s"
  shows "conserved (step cx c s)"
proof (cases "dispatch cx c s")
  case (Rejected e p)
  then show ?thesis using assms by (simp add: step_def commit_def)
next
  case (Returned r s')
  then have s': "step cx c s = s'" by (simp add: step_def commit_def)
  show ?thesis
  proof (cases "(\<exists>name bio category profileImage. c = RegisterCreator name bio category profileImage)
                  \<or> (\<exists>creator message tipPayment. c = SendTip creator message tipPayment)")
    case True
    then show ?thesis
      using Returned assms unfolding s'
      by (auto simp: map_outcome_Returned
            dest: conserved_registerCreator conserved_sendTip)
  next
    case False
    then show ?thesis
      using other_calls_sameCounters [OF Returned] conserved_sameCounters assms
      unfolding s' by blast
  qed
qed

lemma reachable_conserved: "reachable s \<Longrightarrow> conserved s"
  by (induction rule: reachable.induct) (simp_all add: conserved_created conserved_step)

subsection \<open>The deployment, evaluated\<close>

lemma deployed_eq:
  "deployed =
     \<lparr>totalCreators = 0, totalTipsProcessed = 0, totalTipCount = 0,
      minTipAmount = 100000, platformFeeBps = 100, adminAddress = bytes admin,
      pendingAdminAddress = [], isPaused = 0, totalBadgesMinted = 0,
      totalFeesAccumulated = 0, bronzeThreshold = 5000000, silverThreshold = 25000000,
      goldThreshold = 100000000, diamondThreshold = 500000000,
      locals = (\<lambda>a. unset_local), itxns = [], logs = [''TipJar:Created'']\<rparr>"
  by (simp add: deployed_def commit_def createApplication_def fresh_def log_def calledBy_def)

lemma withSlot_eq:
  "withSlot =
     \<lparr>totalCreators = 0, totalTipsProcessed = 0, totalTipCount = 0,
      minTipAmount = 100000, platformFeeBps = 100, adminAddress = bytes admin,
      pendingAdminAddress = [], isPaused = 0, totalBadgesMinted = 0,
      totalFeesAccumulated = 0, bronzeThreshold = 5000000, silverThreshold = 25000000,
      goldThreshold = 100000000, diamondThreshold = 500000000,
      locals = (\<lambda>a. unset_local)(creatorC := unset_local\<lparr>isRegistered := Some 0\<rparr>),
      itxns = [], logs = [''TipJar:Created'']\<rparr>"
  by (simp add: withSlot_def deployed_eq)

lemma withCreator_eq:
  "withCreator =
     \<lparr>totalCreators = 1, totalTipsProcessed = 0, totalTipCount = 0,
      minTipAmount = 100000, platformFeeBps = 100, adminAddress = bytes admin,
      pendingAdminAddress = [], isPaused = 0, totalBadgesMinted = 0,
      totalFeesAccumulated = 0, bronzeThreshold = 5000000, silverThreshold = 25000000,
      goldThreshold = 100000000, diamondThreshold = 500000000,
      locals = (\<lambda>a. unset_local)(creatorC := profileC),
      itxns = [], logs = [''TipJar:Created'']\<rparr>"
  by (simp add: withCreator_def deployed_eq)

lemma accounts_distinct:
  "admin \<noteq> creatorC" "admin \<noteq> supporterS" "admin \<noteq> outsider"
  "creatorC \<noteq> supporterS" "creatorC \<noteq> outsider" "supporterS \<noteq> outsider"
  "creatorC \<noteq> admin" "supporterS \<noteq> admin" "outsider \<noteq> admin"
  "supporterS \<noteq> creatorC" "outsider \<noteq> creatorC" "outsider \<noteq> supporterS"
  "outsider \<noteq> tipjarApp"
  by (simp_all add: admin_def creatorC_def supporterS_def outsider_def tipjarApp_def)

lemma outsider_not_zero: "outsider \<noteq> zeroAddress"
  by (simp add: outsider_def zeroAddress_def numeral_eq_Suc)

lemma registerCreator_withSlot:
  "registerCreator (calledBy creatorC) (lit ''Cleo'') (lit ''Prints and zines'') (lit ''art'') []
     withSlot
     = Returned (lit ''Creator '' @ lit ''Cleo'' @ lit '' registered successfully'')
         (withCreator\<lparr>logs := logs withCreator @ [''TipJar:CreatorRegistered'']\<rparr>)"
  by (simp add: withSlot_eq withCreator_eq registerCreator_def assertNotPaused_def
        unset_local_def profileC_def add64_def Let_def log_def calledBy_def
        MAX_NAME_LEN_def MAX_BIO_LEN_def MAX_CATEGORY_LEN_def MAX_IMAGE_LEN_def)

lemma registerCreator_deployed:
  "registerCreator (calledBy creatorC) (lit ''Cleo'') (lit ''Prints and zines'') (lit ''art'') []
     deployed = Rejected ValueNotSet deployed"
  by (simp add: deployed_eq registerCreator_def assertNotPaused_def unset_local_def
        calledBy_def)

lemma sendTip_2Algo:
  "sendTip (calledBy supporterS) creatorC (lit ''thanks'') (tipOf 2000000) withCreator =
     Returned (lit ''Tip of 2000000 microALGO sent to creator'')
     \<lparr>totalCreators = 1, totalTipsProcessed = 2000000, totalTipCount = 1,
      minTipAmount = 100000, platformFeeBps = 100, adminAddress = bytes admin,
      pendingAdminAddress = [], isPaused = 0, totalBadgesMinted = 0,
      totalFeesAccumulated = 20000, bronzeThreshold = 5000000, silverThreshold = 25000000,
      goldThreshold = 100000000, diamondThreshold = 500000000,
      locals = (\<lambda>a. unset_local)(creatorC :=
        profileC\<lparr>tipsReceived := Some 2000000, tipCount := Some 1\<rparr>),
      itxns = [Payment creatorC 1980000 0],
      logs = [''TipJar:Created'', ''TipJar:TipSent'']\<rparr>"
  by (simp add: withCreator_eq sendTip_def assertNotPaused_def Let_def tipOf_def calledBy_def
        accounts_distinct mul64_def sub64_def add64_def payout_def submit_def log_def
        decimal.simps profileC_def)

lemma afterTip_eq:
  "afterTip =
     \<lparr>totalCreators = 1, totalTipsProcessed = 2000000, totalTipCount = 1,
      minTipAmount = 100000, platformFeeBps = 100, adminAddress = bytes admin,
      pendingAdminAddress = [], isPaused = 0, totalBadgesMinted = 0,
      totalFeesAccumulated = 20000, bronzeThreshold = 5000000, silverThreshold = 25000000,
      goldThreshold = 100000000, diamondThreshold = 500000000,
      locals = (\<lambda>a. unset_local)(creatorC :=
        profileC\<lparr>tipsReceived := Some 2000000, tipCount := Some 1\<rparr>),
      itxns = [Payment creatorC 1980000 0],
      logs = [''TipJar:Created'', ''TipJar:TipSent'']\<rparr>"
  by (simp add: afterTip_def step_def commit_def sendTip_2Algo)

lemma reachable_deployed: "reachable deployed"
  unfolding deployed_def by (rule reachable.created)

lemma reachable_pausedDeployed: "reachable pausedDeployed"
  unfolding pausedDeployed_def by (rule reachable.called [OF reachable_deployed])

lemma registered_withCreator: "registered withCreator = {creatorC}"
  by (auto simp: registered_def withCreator_eq profileC_def unset_local_def)

lemma conserved_withCreator: "conserved withCreator"
  by (simp add: conserved_def sumTipsReceived_def sumTipCount_def registered_withCreator)
     (simp add: withCreator_eq profileC_def)

lemma withSplit_eq:
  "withSplit =
     \<lparr>totalCreators = 1, totalTipsProcessed = 0, totalTipCount = 0,
      minTipAmount = 100000, platformFeeBps = 100, adminAddress = bytes admin,
      pendingAdminAddress = [], isPaused = 0, totalBadgesMinted = 0,
      totalFeesAccumulated = 0, bronzeThreshold = 5000000, silverThreshold = 25000000,
      goldThreshold = 100000000, diamondThreshold = 500000000,
      locals = (\<lambda>a. unset_local)(creatorC :=
        profileC\<lparr>revSplitAddress := Some collaboratorAddress, revSplitPercent := Some 20,
                  revSplitName := Some (lit ''Kai'')\<rparr>),
      itxns = [],
      logs = [''TipJar:Created'', ''TipJar:RevenueSplitSet'']\<rparr>"
  by (simp add: withSplit_def step_def commit_def withCreator_eq setRevenueSplit_def
        assertNotPaused_def assertRegistered_def calledBy_def log_def profileC_def
        ADDR_LEN_def MAX_COLLAB_NAME_LEN_def)
     (simp add: collaboratorAddress_def)

lemma sendTip_1Algo_split:
  "sendTip (calledBy supporterS) creatorC (lit ''encore'') (tipOf 1000000) withSplit =
     Returned (lit ''Tip of 1000000 microALGO sent to creator'')
     \<lparr>totalCreators = 1, totalTipsProcessed = 1000000, totalTipCount = 1,
      minTipAmount = 100000, platformFeeBps = 100, adminAddress = bytes admin,
      pendingAdminAddress = [], isPaused = 0, totalBadgesMinted = 0,
      totalFeesAccumulated = 10000, bronzeThreshold = 5000000, silverThreshold = 25000000,
      goldThreshold = 100000000, diamondThreshold = 500000000,
      locals = (\<lambda>a. unset_local)(creatorC :=
        profileC\<lparr>tipsReceived := Some 1000000, tipCount := Some 1,
                  revSplitAddress := Some collaboratorAddress, revSplitPercent := Some 20,
                  revSplitName := Some (lit ''Kai'')\<rparr>),
      itxns = [Payment creatorC 792000 0],
      logs = [''TipJar:Created'', ''TipJar:RevenueSplitSet'', ''TipJar:TipSent'']\<rparr>"
  by (simp add: withSplit_eq sendTip_def assertNotPaused_def Let_def tipOf_def calledBy_def
        accounts_distinct mul64_def sub64_def add64_def payout_def submit_def log_def
        decimal.simps profileC_def)

lemma afterSplitTip_eq:
  "afterSplitTip =
     \<lparr>totalCreators = 1, totalTipsProcessed = 1000000, totalTipCount = 1,
      minTipAmount = 100000, platformFeeBps = 100, adminAddress = bytes admin,
      pendingAdminAddress = [], isPaused = 0, totalBadgesMinted = 0,
      totalFeesAccumulated = 10000, bronzeThreshold = 5000000, silverThreshold = 25000000,
      goldThreshold = 100000000, diamondThreshold = 500000000,
      locals = (\<lambda>a. unset_local)(creatorC :=
        profileC\<lparr>tipsReceived := Some 1000000, tipCount := Some 1,
                  revSplitAddress := Some collaboratorAddress, revSplitPercent := Some 20,
                  revSplitName := Some (lit ''Kai'')\<rparr>),
      itxns = [Payment creatorC 792000 0],
      logs = [''TipJar:Created'', ''TipJar:RevenueSplitSet'', ''TipJar:TipSent'']\<rparr>"
  by (simp add: afterSplitTip_def step_def commit_def sendTip_1Algo_split)

subsection \<open>The shares of a split tip, and every inner transaction\<close>

lemma sendTip_shares:
  assumes "sendTip cx creator message tipPayment s = Returned r s'"
    and "revSplitPercent (locals s creator) = Some p" and "0 < p"
  shows "\<exists>(fee :: uint64) (afterFee :: uint64) (collaboratorAmount :: uint64)
           (creatorAmount :: uint64).
      unat fee = unat (amount tipPayment) * unat (platformFeeBps s) div 10000
    \<and> unat fee \<le> unat (amount tipPayment)
    \<and> unat afterFee = unat (amount tipPayment) - unat fee
    \<and> unat collaboratorAmount = unat afterFee * unat p div 100
    \<and> unat collaboratorAmount \<le> unat afterFee
    \<and> unat creatorAmount = unat afterFee - unat collaboratorAmount
    \<and> itxns s' = itxns s @ [Payment creator creatorAmount 0]
    \<and> unat (totalFeesAccumulated s') = unat (totalFeesAccumulated s) + unat fee
    \<and> revSplitAddress (locals s' creator) = revSplitAddress (locals s creator)"
proof -
  from sendTip_Returned [OF assms(1)] obtain fee afterFee :: uint64
      and paid splitPercent before tipsBefore where
    sp: "revSplitPercent (locals s creator) = Some splitPercent"
    and fee: "unat fee = unat (amount tipPayment) * unat (platformFeeBps s) div 10000"
    and le: "unat fee \<le> unat (amount tipPayment)"
    and aft: "unat afterFee = unat (amount tipPayment) - unat fee"
    and paid0: "unat paid =
            (if splitPercent > 0
             then unat afterFee - unat afterFee * unat splitPercent div 100
             else unat afterFee)"
    and fits0: "splitPercent > 0 \<longrightarrow>
            unat afterFee * unat splitPercent div 100 \<le> unat afterFee"
    and room: "unat (totalFeesAccumulated s) + unat fee < 2 ^ 64"
    and s': "s' = s\<lparr>totalFeesAccumulated := totalFeesAccumulated s + fee,
                 itxns := itxns s @ [Payment creator paid 0],
                 locals := (locals s)(creator := (locals s creator)
                    \<lparr>tipsReceived := Some (before + amount tipPayment),
                     tipCount := Some (tipsBefore + 1)\<rparr>),
                 totalTipsProcessed := totalTipsProcessed s + amount tipPayment,
                 totalTipCount := totalTipCount s + 1,
                 logs := logs s @ [''TipJar:TipSent'']\<rparr>"
    by blast
  from sp assms(2) have same: "splitPercent = p" by simp
  from paid0 assms(3) have paid: "unat paid = unat afterFee - unat afterFee * unat p div 100"
    by (simp add: same)
  from fits0 assms(3) have fits: "unat afterFee * unat p div 100 \<le> unat afterFee"
    by (simp add: same)
  define collab :: uint64 where "collab = of_nat (unat afterFee * unat p div 100)"
  have c: "unat collab = unat afterFee * unat p div 100"
    unfolding collab_def using fits by (rule le_unat_uoi)
  have booked: "unat (totalFeesAccumulated s') = unat (totalFeesAccumulated s) + unat fee"
    using room by (simp add: s' unat_word_ariths)
  show ?thesis
    apply (rule exI [of _ fee])
    apply (rule exI [of _ afterFee])
    apply (rule exI [of _ collab])
    apply (rule exI [of _ paid])
    using fee le aft paid fits c booked
    apply (simp add: s')
    done
qed

lemma dispatch_itxns:
  assumes "dispatch cx c s = Returned v s'"
  shows "itxns s' = itxns s
     \<or> (\<exists>creator message tipPayment paid.
           c = SendTip creator message tipPayment
           \<and> itxns s' = itxns s @ [Payment creator paid 0])
     \<or> (\<exists>amt. c = WithdrawPlatformFees amt
           \<and> bytes (sender cx) = adminAddress s
           \<and> amt \<le> totalFeesAccumulated s
           \<and> itxns s' = itxns s @ [Payment (sender cx) amt 0])
     \<or> (\<exists>supporter badgeTier creatorAddr.
           c = MintBadge supporter badgeTier creatorAddr
           \<and> itxns s' = itxns s @
                 [AssetConfig 1 0 False (lit ''TJBADGE'')
                    (lit (''TipJar '' @ tierName badgeTier @ '' Badge'')) 0])"
  using assms
  by (cases c)
     (auto simp: map_outcome_Returned simple_methods
           dest!: mintBadge_Returned withdrawPlatformFees_Returned registerCreator_Returned
                  sendTip_Returned
           split: option.splits if_splits)

subsection \<open>The paused contract\<close>

lemma pausedDeployed_eq:
  "pausedDeployed = deployed\<lparr>isPaused := 1, logs := logs deployed @ [''TipJar:Paused'']\<rparr>"
  by (simp add: pausedDeployed_def step_def commit_def pauseContract_def assertAdmin_def
        calledBy_def log_def deployed_eq)

lemma pausedTip_eq:
  "pausedTip = afterTip\<lparr>isPaused := 1, logs := logs afterTip @ [''TipJar:Paused'']\<rparr>"
  by (simp add: pausedTip_def step_def commit_def pauseContract_def assertAdmin_def
        calledBy_def log_def afterTip_eq)

lemma pausedTip_fields:
  "isPaused pausedTip = 1" "totalFeesAccumulated pausedTip = 20000"
  "adminAddress pausedTip = bytes admin" "pendingAdminAddress pausedTip = []"
  by (simp_all add: pausedTip_eq afterTip_eq)

lemma paused_Returned_exempt:
  assumes "dispatch cx c s = Returned v s'" and "isPaused s = 1" and "s' \<noteq> s"
  shows "c = PauseContract \<or> c = UnpauseContract \<or> (\<exists>newAdmin. c = TransferAdmin newAdmin)
     \<or> c = AcceptAdmin \<or> (\<exists>newMin. c = SetMinTipAmount newMin)
     \<or> (\<exists>newFeeBps. c = SetPlatformFee newFeeBps)
     \<or> (\<exists>amt. c = WithdrawPlatformFees amt)
     \<or> (\<exists>bronze silver gold diamond. c = SetBadgeThresholds bronze silver gold diamond)"
  using assms
  by (cases c)
     (auto simp: map_outcome_Returned simple_methods
           dest!: mintBadge_Returned registerCreator_Returned sendTip_Returned
           split: option.splits if_splits)

subsection \<open>The admin and the pending admin\<close>

lemma dispatch_admin:
  assumes "dispatch cx c s = Returned v s'"
  shows "(c = AcceptAdmin \<and> pendingAdminAddress s \<noteq> []
            \<and> bytes (sender cx) = pendingAdminAddress s
            \<and> adminAddress s' = bytes (sender cx) \<and> pendingAdminAddress s' = [])
     \<or> (\<exists>newAdmin. c = TransferAdmin newAdmin
            \<and> bytes (sender cx) = adminAddress s \<and> bytes newAdmin \<noteq> adminAddress s
            \<and> adminAddress s' = adminAddress s
            \<and> pendingAdminAddress s' = bytes newAdmin)
     \<or> (c \<noteq> AcceptAdmin \<and> (\<forall>newAdmin. c \<noteq> TransferAdmin newAdmin)
            \<and> adminAddress s' = adminAddress s
            \<and> pendingAdminAddress s' = pendingAdminAddress s)"
  using assms
  by (cases c)
     (auto simp: map_outcome_Returned simple_methods account.expand
           dest!: mintBadge_Returned registerCreator_Returned sendTip_Returned
                  withdrawPlatformFees_Returned
           split: option.splits if_splits)

lemma reachable_pending_differs:
  "reachable s \<Longrightarrow> pendingAdminAddress s \<noteq> [] \<longrightarrow> pendingAdminAddress s \<noteq> adminAddress s"
proof (induction rule: reachable.induct)
  case (created cx)
  then show ?case
    by (simp add: commit_def createApplication_def log_def)
next
  case (called s cx c)
  show ?case
  proof (cases "dispatch cx c s")
    case (Rejected e p)
    then show ?thesis using called.IH by (simp add: step_def commit_def)
  next
    case (Returned v s')
    then have "step cx c s = s'" by (simp add: step_def commit_def)
    with dispatch_admin [OF Returned] called.IH show ?thesis
      by auto
  qed
qed

lemma pendingHandover_eq:
  "pendingHandover =
     deployed\<lparr>pendingAdminAddress := bytes outsider,
              logs := logs deployed @ [''TipJar:AdminTransferInitiated'']\<rparr>"
  by (simp add: pendingHandover_def step_def commit_def transferAdmin_def assertAdmin_def
        calledBy_def log_def deployed_eq accounts_distinct)

lemma handedOver_eq:
  "handedOver =
     pendingHandover\<lparr>adminAddress := bytes outsider, pendingAdminAddress := [],
              logs := logs pendingHandover @ [''TipJar:AdminTransferred'']\<rparr>"
  by (simp add: handedOver_def step_def commit_def acceptAdmin_def
        calledBy_def log_def pendingHandover_eq deployed_eq outsider_def)

lemma reachable_pendingHandover: "reachable pendingHandover"
  unfolding pendingHandover_def by (rule reachable.called [OF reachable_deployed])

subsection \<open>Registrations\<close>

lemma dispatch_registration:
  assumes "dispatch cx c s = Returned v s'"
  shows "((\<exists>name bio category profileImage.
             c = RegisterCreator name bio category profileImage)
          \<and> isRegistered (locals s (sender cx)) \<noteq> Some 1
          \<and> isRegistered (locals s' (sender cx)) = Some 1
          \<and> (\<forall>a. a \<noteq> sender cx \<longrightarrow>
                isRegistered (locals s' a) = isRegistered (locals s a))
          \<and> unat (totalCreators s') = unat (totalCreators s) + 1)
     \<or> ((\<forall>a. isRegistered (locals s' a) = isRegistered (locals s a))
          \<and> totalCreators s' = totalCreators s)"
proof (cases "\<exists>name bio category profileImage. c = RegisterCreator name bio category profileImage")
  case True
  then obtain name bio category profileImage where
    c: "c = RegisterCreator name bio category profileImage" by blast
  with assms obtain r where
    "registerCreator cx name bio category profileImage s = Returned r s'"
    by (auto simp: map_outcome_Returned)
  from registerCreator_Returned [OF this] show ?thesis
    by (auto simp: c unat_word_ariths)
next
  case notreg: False
  show ?thesis
  proof (cases "\<exists>creator message tipPayment. c = SendTip creator message tipPayment")
    case True
    then obtain creator message tipPayment where
      c: "c = SendTip creator message tipPayment" by blast
    with assms obtain r where
      "sendTip cx creator message tipPayment s = Returned r s'"
      by (auto simp: map_outcome_Returned)
    from sendTip_Returned [OF this] obtain fee paid before tipsBefore where
      s': "s' = s\<lparr>totalFeesAccumulated := totalFeesAccumulated s + fee,
                 itxns := itxns s @ [Payment creator paid 0],
                 locals := (locals s)(creator := (locals s creator)
                    \<lparr>tipsReceived := Some (before + amount tipPayment),
                     tipCount := Some (tipsBefore + 1)\<rparr>),
                 totalTipsProcessed := totalTipsProcessed s + amount tipPayment,
                 totalTipCount := totalTipCount s + 1,
                 logs := logs s @ [''TipJar:TipSent'']\<rparr>"
      by blast
    have "\<forall>a. isRegistered (locals s' a) = isRegistered (locals s a)"
      "totalCreators s' = totalCreators s"
      by (simp_all add: s')
    then show ?thesis by blast
  next
    case False
    with notreg other_calls_sameCounters [OF assms] show ?thesis
      by (simp add: sameCounters_def)
  qed
qed

subsection \<open>The checks of setRevenueSplit\<close>


subsection \<open>The paused deployment, and registration from creation\<close>

lemma pausedDeployed_fields:
  "isPaused pausedDeployed = 1" "totalFeesAccumulated pausedDeployed = 0"
  "adminAddress pausedDeployed = bytes admin" "pendingAdminAddress pausedDeployed = []"
  by (simp_all add: pausedDeployed_eq deployed_eq)

text \<open>
  In a state reached from creation no local slot holds a value, so \<open>registerCreator\<close>, which
  reads the caller's \<open>isRegistered\<close> before any method has written it, is rejected there.
\<close>

lemma registerCreator_reachable_rejected:
  assumes "reachable s"
  shows "\<exists>e. registerCreator cx name bio category profileImage s = Rejected e s"
  using reachable_unset [OF assms]
  by (simp add: registerCreator_def assertNotPaused_def unset_local_def)

section \<open>The claims\<close>

subsection \<open>Rejected tips\<close>

text \<open>
  Claim C1. A call of \<open>sendTip\<close> whose payment is below \<open>minTipAmount\<close>, or whose target
  is not registered (its \<open>isRegistered\<close> slot holds another number than 1, or nothing), or
  whose payment is not addressed to the contract's own account, or carries a
  close-remainder-to or a rekey-to other than the zero address, or whose sender is the
  target, is rejected, and nothing was written when it is rejected: the method stops in the
  state it started from (no creator statistics, no platform counter, no
  \<open>totalFeesAccumulated\<close>, no inner transaction), and the ledger keeps that state.
\<close>

theorem sendTip_guard_rejects_unchanged:
  "amount tipPayment < minTipAmount s
     \<or> isRegistered (locals s creator) \<noteq> Some 1
     \<or> receiver tipPayment \<noteq> currentApplicationAddress cx
     \<or> closeRemainderTo tipPayment \<noteq> zeroAddress
     \<or> rekeyTo tipPayment \<noteq> zeroAddress
     \<or> sender cx = creator
   \<Longrightarrow> (\<exists>e. sendTip cx creator message tipPayment s = Rejected e s)
       \<and> step cx (SendTip creator message tipPayment) s = s"
  by (auto simp: sendTip_def assertNotPaused_def Let_def not_le step_def commit_def
        split: option.splits)

theorem sendTip_guard_rejects_unchanged_witness:
  "(\<exists>e. sendTip (calledBy supporterS) creatorC (lit ''hi'') (tipOf 50000) withCreator
          = Rejected e withCreator)
   \<and> step (calledBy supporterS) (SendTip outsider (lit ''hi'') (tipOf 2000000)) withCreator
       = withCreator
   \<and> step (calledBy supporterS)
        (SendTip creatorC (lit ''hi'') ((tipOf 2000000)\<lparr>receiver := outsider\<rparr>)) withCreator
       = withCreator
   \<and> step (calledBy supporterS)
        (SendTip creatorC (lit ''hi'') ((tipOf 2000000)\<lparr>closeRemainderTo := outsider\<rparr>))
        withCreator
       = withCreator
   \<and> step (calledBy supporterS)
        (SendTip creatorC (lit ''hi'') ((tipOf 2000000)\<lparr>rekeyTo := outsider\<rparr>)) withCreator
       = withCreator
   \<and> step (calledBy creatorC) (SendTip creatorC (lit ''hi'') (tipOf 2000000)) withCreator
       = withCreator
   \<and> step (calledBy supporterS) (SendTip creatorC (lit ''hi'') (tipOf 2000000)) deployed
       = deployed"
proof -
  have low: "amount (tipOf 50000) < minTipAmount withCreator"
    by (simp add: tipOf_def withCreator_eq)
  have unreg: "isRegistered (locals withCreator outsider) \<noteq> Some 1"
    by (simp add: withCreator_eq accounts_distinct unset_local_def)
  have misdirected:
    "receiver ((tipOf 2000000)\<lparr>receiver := outsider\<rparr>)
       \<noteq> currentApplicationAddress (calledBy supporterS)"
    by (simp add: calledBy_def accounts_distinct)
  have closing: "closeRemainderTo ((tipOf 2000000)\<lparr>closeRemainderTo := outsider\<rparr>) \<noteq> zeroAddress"
    by (simp add: outsider_not_zero)
  have rekeying: "rekeyTo ((tipOf 2000000)\<lparr>rekeyTo := outsider\<rparr>) \<noteq> zeroAddress"
    by (simp add: outsider_not_zero)
  have self: "sender (calledBy creatorC) = creatorC"
    by (simp add: calledBy_def)
  have nobody: "isRegistered (locals deployed creatorC) \<noteq> Some 1"
    by (simp add: deployed_eq unset_local_def)
  show ?thesis
    using sendTip_guard_rejects_unchanged [where tipPayment = "tipOf 50000" and s = withCreator
            and creator = creatorC and cx = "calledBy supporterS" and message = "lit ''hi''"] low
          sendTip_guard_rejects_unchanged [where tipPayment = "tipOf 2000000" and s = withCreator
            and creator = outsider and cx = "calledBy supporterS" and message = "lit ''hi''"] unreg
          sendTip_guard_rejects_unchanged [where tipPayment = "(tipOf 2000000)\<lparr>receiver := outsider\<rparr>" and s = withCreator
            and creator = creatorC and cx = "calledBy supporterS" and message = "lit ''hi''"] misdirected
          sendTip_guard_rejects_unchanged [where tipPayment = "(tipOf 2000000)\<lparr>closeRemainderTo := outsider\<rparr>" and s = withCreator
            and creator = creatorC and cx = "calledBy supporterS" and message = "lit ''hi''"] closing
          sendTip_guard_rejects_unchanged [where tipPayment = "(tipOf 2000000)\<lparr>rekeyTo := outsider\<rparr>" and s = withCreator
            and creator = creatorC and cx = "calledBy supporterS" and message = "lit ''hi''"] rekeying
          sendTip_guard_rejects_unchanged [where tipPayment = "tipOf 2000000" and s = withCreator
            and creator = creatorC and cx = "calledBy creatorC" and message = "lit ''hi''"] self
          sendTip_guard_rejects_unchanged [where tipPayment = "tipOf 2000000" and s = deployed
            and creator = creatorC and cx = "calledBy supporterS" and message = "lit ''hi''"] nobody
    by blast
qed

subsection \<open>Conservation of the tip counters\<close>



subsection \<open>The platform fee\<close>

text \<open>
  Claim C3. When \<open>sendTip\<close> returns and \<open>platformFeeBps\<close> is at most 1000, the fee is
  \<open>amount * platformFeeBps div 10000\<close> and the amount after the fee is \<open>amount - fee\<close>, so
  the two add up to the amount and the fee is at most a tenth of it; the fee is added to
  \<open>totalFeesAccumulated\<close>; the call submits one payment to the creator, which without a
  revenue split is the amount after the fee; the creator's \<open>tipsReceived\<close> grows by the
  gross amount and \<open>tipCount\<close> by one. For a tip of 2,000,000 at 100 basis points the fee
  is 20,000 and the amount after the fee 1,980,000.
\<close>

theorem fee_split:
  assumes "sendTip cx creator message tipPayment s = Returned r s'"
    and "platformFeeBps s \<le> 1000"
  shows "\<exists>(fee :: uint64) (afterFee :: uint64) paid.
      unat fee = unat (amount tipPayment) * unat (platformFeeBps s) div 10000
    \<and> unat afterFee = unat (amount tipPayment) - unat fee
    \<and> unat fee + unat afterFee = unat (amount tipPayment)
    \<and> 10 * unat fee \<le> unat (amount tipPayment)
    \<and> unat (totalFeesAccumulated s') = unat (totalFeesAccumulated s) + unat fee
    \<and> itxns s' = itxns s @ [Payment creator paid 0]
    \<and> (revSplitPercent (locals s creator) = Some 0 \<longrightarrow> paid = afterFee)
    \<and> held (tipsReceived (locals s' creator))
         = held (tipsReceived (locals s creator)) + unat (amount tipPayment)
    \<and> held (tipCount (locals s' creator)) = held (tipCount (locals s creator)) + 1
    \<and> (amount tipPayment = 2000000 \<and> platformFeeBps s = 100 \<longrightarrow>
          fee = 20000 \<and> afterFee = 1980000
          \<and> held (tipsReceived (locals s' creator))
               = held (tipsReceived (locals s creator)) + 2000000)"
proof -
  from sendTip_Returned [OF assms(1)] obtain fee afterFee :: uint64
      and paid splitPercent before tipsBefore where
    sp: "revSplitPercent (locals s creator) = Some splitPercent"
    and was: "tipsReceived (locals s creator) = Some before"
      "tipCount (locals s creator) = Some tipsBefore"
    and fee: "unat fee = unat (amount tipPayment) * unat (platformFeeBps s) div 10000"
    and le: "unat fee \<le> unat (amount tipPayment)"
    and aft: "unat afterFee = unat (amount tipPayment) - unat fee"
    and paid: "unat paid =
            (if splitPercent > 0
             then unat afterFee - unat afterFee * unat splitPercent div 100
             else unat afterFee)"
    and room: "unat (totalFeesAccumulated s) + unat fee < 2 ^ 64"
      "unat before + unat (amount tipPayment) < 2 ^ 64"
      "unat tipsBefore + 1 < 2 ^ 64"
    and s': "s' = s\<lparr>totalFeesAccumulated := totalFeesAccumulated s + fee,
                 itxns := itxns s @ [Payment creator paid 0],
                 locals := (locals s)(creator := (locals s creator)
                    \<lparr>tipsReceived := Some (before + amount tipPayment),
                     tipCount := Some (tipsBefore + 1)\<rparr>),
                 totalTipsProcessed := totalTipsProcessed s + amount tipPayment,
                 totalTipCount := totalTipCount s + 1,
                 logs := logs s @ [''TipJar:TipSent'']\<rparr>"
    by blast
  from assms(2) have bps: "unat (platformFeeBps s) \<le> 1000"
    by (simp add: word_le_nat_alt)
  have "unat (amount tipPayment) * unat (platformFeeBps s)
          \<le> unat (amount tipPayment) * 1000"
    using bps by simp
  then have "unat fee \<le> unat (amount tipPayment) * 1000 div 10000"
    unfolding fee by (rule div_le_mono)
  then have tenth: "10 * unat fee \<le> unat (amount tipPayment)"
    by simp
  have whole: "unat fee + unat afterFee = unat (amount tipPayment)"
    using le aft by linarith
  have booked: "unat (totalFeesAccumulated s') = unat (totalFeesAccumulated s) + unat fee"
    using room by (simp add: s' unat_word_ariths)
  have tx: "itxns s' = itxns s @ [Payment creator paid 0]"
    by (simp add: s')
  have stats: "held (tipsReceived (locals s' creator))
         = held (tipsReceived (locals s creator)) + unat (amount tipPayment)"
    "held (tipCount (locals s' creator)) = held (tipCount (locals s creator)) + 1"
    using room by (simp_all add: s' was unat_word_ariths)
  have nosplit: "revSplitPercent (locals s creator) = Some 0 \<longrightarrow> paid = afterFee"
    using paid sp by (auto simp: word_unat_eq_iff)
  have scenario: "amount tipPayment = 2000000 \<and> platformFeeBps s = 100 \<longrightarrow>
          fee = 20000 \<and> afterFee = 1980000
          \<and> held (tipsReceived (locals s' creator))
               = held (tipsReceived (locals s creator)) + 2000000"
    using fee aft stats by (auto simp: word_unat_eq_iff)
  show ?thesis
    apply (rule exI [of _ fee])
    apply (rule exI [of _ afterFee])
    apply (rule exI [of _ paid])
    apply (intro conjI)
    apply (fact fee aft whole tenth booked tx nosplit stats scenario)+
    done
qed

theorem fee_split_witness:
  "\<exists>(fee :: uint64) (afterFee :: uint64).
      fee = 20000 \<and> afterFee = 1980000
    \<and> unat fee + unat afterFee = unat (amount (tipOf 2000000))
    \<and> 10 * unat fee \<le> unat (amount (tipOf 2000000))
    \<and> unat (totalFeesAccumulated afterTip)
         = unat (totalFeesAccumulated withCreator) + unat fee
    \<and> itxns afterTip = itxns withCreator @ [Payment creatorC afterFee 0]
    \<and> held (tipsReceived (locals afterTip creatorC))
         = held (tipsReceived (locals withCreator creatorC)) + 2000000
    \<and> held (tipCount (locals afterTip creatorC))
         = held (tipCount (locals withCreator creatorC)) + 1"
proof -
  have tip: "sendTip (calledBy supporterS) creatorC (lit ''thanks'') (tipOf 2000000) withCreator
      = Returned (lit ''Tip of 2000000 microALGO sent to creator'') afterTip"
    by (simp add: sendTip_2Algo afterTip_eq)
  have bps: "platformFeeBps withCreator \<le> 1000"
    by (simp add: withCreator_eq)
  have given: "amount (tipOf 2000000) = 2000000" "platformFeeBps withCreator = 100"
    "revSplitPercent (locals withCreator creatorC) = Some 0"
    by (simp_all add: tipOf_def withCreator_eq profileC_def)
  from fee_split [OF tip bps] obtain fee afterFee :: uint64 and paid where
    f: "unat fee + unat afterFee = unat (amount (tipOf 2000000))"
      "10 * unat fee \<le> unat (amount (tipOf 2000000))"
      "unat (totalFeesAccumulated afterTip)
         = unat (totalFeesAccumulated withCreator) + unat fee"
      "itxns afterTip = itxns withCreator @ [Payment creatorC paid 0]"
      "revSplitPercent (locals withCreator creatorC) = Some 0 \<longrightarrow> paid = afterFee"
      "held (tipsReceived (locals afterTip creatorC))
         = held (tipsReceived (locals withCreator creatorC)) + unat (amount (tipOf 2000000))"
      "held (tipCount (locals afterTip creatorC))
         = held (tipCount (locals withCreator creatorC)) + 1"
      "amount (tipOf 2000000) = 2000000 \<and> platformFeeBps withCreator = 100 \<longrightarrow>
          fee = 20000 \<and> afterFee = 1980000"
    by blast
  from f(8) given have v: "fee = 20000" "afterFee = 1980000" by simp_all
  from f(5) given have p: "paid = afterFee" by simp
  show ?thesis
    apply (rule exI [of _ fee])
    apply (rule exI [of _ afterFee])
    using f(1-4,6,7) v p given(1)
    apply simp
    done
qed

subsection \<open>The revenue split\<close>

text \<open>
  Claim C4. When \<open>sendTip\<close> returns and the target's \<open>revSplitPercent\<close> \<open>p\<close> is between 1 and
  50, the collaborator's share is \<open>afterFee * p div 100\<close> and the creator's share is
  \<open>afterFee\<close> less that, so the two add up to \<open>afterFee\<close> and the collaborator's share is at
  most half of it; the payment the call submits to the creator is the creator's share.
  With a 20% split, a tip of 1,000,000 and a fee of 100 basis points, \<open>afterFee\<close> is
  990,000, the collaborator's share 198,000 and the creator's 792,000.
\<close>

theorem revenue_split_shares:
  assumes "sendTip cx creator message tipPayment s = Returned r s'"
    and "revSplitPercent (locals s creator) = Some p"
    and "0 < p" and "p \<le> 50"
  shows "\<exists>(afterFee :: uint64) (collaboratorShare :: uint64) (creatorShare :: uint64).
      unat afterFee
        = unat (amount tipPayment)
            - unat (amount tipPayment) * unat (platformFeeBps s) div 10000
    \<and> unat collaboratorShare = unat afterFee * unat p div 100
    \<and> unat creatorShare = unat afterFee - unat collaboratorShare
    \<and> unat collaboratorShare + unat creatorShare = unat afterFee
    \<and> 2 * unat collaboratorShare \<le> unat afterFee
    \<and> itxns s' = itxns s @ [Payment creator creatorShare 0]
    \<and> (amount tipPayment = 1000000 \<and> platformFeeBps s = 100 \<and> p = 20 \<longrightarrow>
          afterFee = 990000 \<and> collaboratorShare = 198000 \<and> creatorShare = 792000)"
proof -
  from sendTip_shares [OF assms(1,2,3)] obtain fee afterFee collab creatorAmount :: uint64
    where fee: "unat fee = unat (amount tipPayment) * unat (platformFeeBps s) div 10000"
    and aft: "unat afterFee = unat (amount tipPayment) - unat fee"
    and c: "unat collab = unat afterFee * unat p div 100"
    and cle: "unat collab \<le> unat afterFee"
    and cr: "unat creatorAmount = unat afterFee - unat collab"
    and tx: "itxns s' = itxns s @ [Payment creator creatorAmount 0]"
    by blast
  from assms(4) have p: "unat p \<le> 50"
    by (simp add: word_le_nat_alt)
  have "unat afterFee * unat p \<le> unat afterFee * 50"
    using p by simp
  then have "unat collab \<le> unat afterFee * 50 div 100"
    unfolding c by (rule div_le_mono)
  then have half: "2 * unat collab \<le> unat afterFee"
    by simp
  have scenario: "amount tipPayment = 1000000 \<and> platformFeeBps s = 100 \<and> p = 20 \<longrightarrow>
          afterFee = 990000 \<and> collab = 198000 \<and> creatorAmount = 792000"
    using fee aft c cr by (auto simp: word_unat_eq_iff)
  have aft': "unat afterFee
        = unat (amount tipPayment)
            - unat (amount tipPayment) * unat (platformFeeBps s) div 10000"
    using aft fee by simp
  have whole: "unat collab + unat creatorAmount = unat afterFee"
    using cle cr by linarith
  show ?thesis
    apply (rule exI [of _ afterFee])
    apply (rule exI [of _ collab])
    apply (rule exI [of _ creatorAmount])
    apply (intro conjI)
    apply (fact aft' c cr whole half tx scenario)+
    done
qed

theorem revenue_split_shares_witness:
  "\<exists>(afterFee :: uint64) (collaboratorShare :: uint64) (creatorShare :: uint64).
      afterFee = 990000 \<and> collaboratorShare = 198000 \<and> creatorShare = 792000
    \<and> unat collaboratorShare + unat creatorShare = unat afterFee
    \<and> 2 * unat collaboratorShare \<le> unat afterFee
    \<and> itxns afterSplitTip = itxns withSplit @ [Payment creatorC creatorShare 0]"
proof -
  have tip: "sendTip (calledBy supporterS) creatorC (lit ''encore'') (tipOf 1000000) withSplit
      = Returned (lit ''Tip of 1000000 microALGO sent to creator'') afterSplitTip"
    by (simp add: sendTip_1Algo_split afterSplitTip_eq)
  have given: "amount (tipOf 1000000) = 1000000" "platformFeeBps withSplit = 100"
    by (simp_all add: tipOf_def withSplit_eq)
  have split: "revSplitPercent (locals withSplit creatorC) = Some 20"
    by (simp add: withSplit_eq)
  have active: "0 < (20 :: uint64)" "(20 :: uint64) \<le> 50"
    by simp_all
  from revenue_split_shares [OF tip split active] obtain afterFee collab creatorShare :: uint64
    where f: "unat collab + unat creatorShare = unat afterFee"
      "2 * unat collab \<le> unat afterFee"
      "itxns afterSplitTip = itxns withSplit @ [Payment creatorC creatorShare 0]"
      "amount (tipOf 1000000) = 1000000 \<and> platformFeeBps withSplit = 100
         \<and> (20 :: uint64) = 20 \<longrightarrow>
          afterFee = 990000 \<and> collab = 198000 \<and> creatorShare = 792000"
    by blast
  from f(4) given have v: "afterFee = 990000" "collab = 198000" "creatorShare = 792000"
    by simp_all
  show ?thesis
    apply (rule exI [of _ afterFee])
    apply (rule exI [of _ collab])
    apply (rule exI [of _ creatorShare])
    using f(1-3) v
    apply simp
    done
qed

subsection \<open>The collaborator share\<close>

text \<open>
  Claim C5. When the target has a revenue split (\<open>revSplitPercent > 0\<close>), a \<open>sendTip\<close> that
  returns has submitted exactly one inner transaction, the payment of the creator's share
  to the creator, and has paid nothing to any other account. The tip was paid to the
  application address; of its amount, what the call has not paid out again is the fee and
  the collaborator's share, and only the fee is booked in \<open>totalFeesAccumulated\<close>. No call
  of any method pays the collaborator: a returning call submits nothing, or one payment to
  the creator tipped by \<open>sendTip\<close>, or one payment of at most \<open>totalFeesAccumulated\<close> to the
  admin who calls \<open>withdrawPlatformFees\<close>, or the asset creation of \<open>mintBadge\<close>.
\<close>

theorem collaborator_share_retained:
  "(sendTip cx creator message tipPayment s = Returned r s'
      \<and> revSplitPercent (locals s creator) = Some p \<and> 0 < p \<longrightarrow>
      (\<exists>(fee :: uint64) (afterFee :: uint64) (collaboratorShare :: uint64)
          (creatorShare :: uint64).
          unat fee = unat (amount tipPayment) * unat (platformFeeBps s) div 10000
        \<and> unat afterFee = unat (amount tipPayment) - unat fee
        \<and> unat collaboratorShare = unat afterFee * unat p div 100
        \<and> unat creatorShare = unat afterFee - unat collaboratorShare
        \<and> itxns s' = itxns s @ [Payment creator creatorShare 0]
        \<and> unat (amount tipPayment)
            = unat creatorShare + unat fee + unat collaboratorShare
        \<and> unat (totalFeesAccumulated s') = unat (totalFeesAccumulated s) + unat fee
        \<and> receiver tipPayment = currentApplicationAddress cx
        \<and> emitted s s' = [Payment creator creatorShare 0]
        \<and> paidTo a (emitted s s') = (if a = creator then unat creatorShare else 0)
        \<and> unat (amount tipPayment) - paidOut (emitted s s')
            = unat fee + unat collaboratorShare))
   \<and> (dispatch cx c s = Returned v s'' \<longrightarrow>
        itxns s'' = itxns s
        \<or> (\<exists>target note tip paid.
              c = SendTip target note tip
              \<and> itxns s'' = itxns s @ [Payment target paid 0])
        \<or> (\<exists>amt. c = WithdrawPlatformFees amt
              \<and> bytes (sender cx) = adminAddress s
              \<and> amt \<le> totalFeesAccumulated s
              \<and> itxns s'' = itxns s @ [Payment (sender cx) amt 0])
        \<or> (\<exists>supporter badgeTier creatorAddr.
              c = MintBadge supporter badgeTier creatorAddr
              \<and> itxns s'' = itxns s @
                    [AssetConfig 1 0 False (lit ''TJBADGE'')
                       (lit (''TipJar '' @ tierName badgeTier @ '' Badge'')) 0]))"
proof (intro conjI impI)
  assume a: "sendTip cx creator message tipPayment s = Returned r s'
      \<and> revSplitPercent (locals s creator) = Some p \<and> 0 < p"
  from sendTip_shares [of cx creator message tipPayment s r s' p] a
  obtain fee afterFee collab creatorAmount :: uint64
    where fee: "unat fee = unat (amount tipPayment) * unat (platformFeeBps s) div 10000"
    and le: "unat fee \<le> unat (amount tipPayment)"
    and aft: "unat afterFee = unat (amount tipPayment) - unat fee"
    and c: "unat collab = unat afterFee * unat p div 100"
    and cle: "unat collab \<le> unat afterFee"
    and cr: "unat creatorAmount = unat afterFee - unat collab"
    and tx: "itxns s' = itxns s @ [Payment creator creatorAmount 0]"
    and booked: "unat (totalFeesAccumulated s') = unat (totalFeesAccumulated s) + unat fee"
    by blast
  from a sendTip_Returned [of cx creator message tipPayment s r s']
  have rcv: "receiver tipPayment = currentApplicationAddress cx"
    by blast
  have em: "emitted s s' = [Payment creator creatorAmount 0]"
    by (simp add: emitted_def tx)
  have to: "paidTo a (emitted s s') = (if a = creator then unat creatorAmount else 0)"
    by (simp add: em)
  have kept: "unat (amount tipPayment) = unat creatorAmount + unat fee + unat collab"
    using le aft cle cr by linarith
  have bal: "unat (amount tipPayment) - paidOut (emitted s s') = unat fee + unat collab"
    using kept by (simp add: em)
  show "\<exists>(fee :: uint64) (afterFee :: uint64) (collaboratorShare :: uint64)
          (creatorShare :: uint64).
          unat fee = unat (amount tipPayment) * unat (platformFeeBps s) div 10000
        \<and> unat afterFee = unat (amount tipPayment) - unat fee
        \<and> unat collaboratorShare = unat afterFee * unat p div 100
        \<and> unat creatorShare = unat afterFee - unat collaboratorShare
        \<and> itxns s' = itxns s @ [Payment creator creatorShare 0]
        \<and> unat (amount tipPayment)
            = unat creatorShare + unat fee + unat collaboratorShare
        \<and> unat (totalFeesAccumulated s') = unat (totalFeesAccumulated s) + unat fee
        \<and> receiver tipPayment = currentApplicationAddress cx
        \<and> emitted s s' = [Payment creator creatorShare 0]
        \<and> paidTo a (emitted s s') = (if a = creator then unat creatorShare else 0)
        \<and> unat (amount tipPayment) - paidOut (emitted s s')
            = unat fee + unat collaboratorShare"
    apply (rule exI [of _ fee])
    apply (rule exI [of _ afterFee])
    apply (rule exI [of _ collab])
    apply (rule exI [of _ creatorAmount])
    apply (intro conjI)
    apply (fact fee aft c cr tx kept booked rcv em to bal)+
    done
next
  assume "dispatch cx c s = Returned v s''"
  from dispatch_itxns [OF this]
  show "itxns s'' = itxns s
        \<or> (\<exists>target note tip paid.
              c = SendTip target note tip
              \<and> itxns s'' = itxns s @ [Payment target paid 0])
        \<or> (\<exists>amt. c = WithdrawPlatformFees amt
              \<and> bytes (sender cx) = adminAddress s
              \<and> amt \<le> totalFeesAccumulated s
              \<and> itxns s'' = itxns s @ [Payment (sender cx) amt 0])
        \<or> (\<exists>supporter badgeTier creatorAddr.
              c = MintBadge supporter badgeTier creatorAddr
              \<and> itxns s'' = itxns s @
                    [AssetConfig 1 0 False (lit ''TJBADGE'')
                       (lit (''TipJar '' @ tierName badgeTier @ '' Badge'')) 0])"
    by blast
qed

theorem collaborator_share_retained_witness:
  "(\<exists>(fee :: uint64) (collaboratorShare :: uint64) (creatorShare :: uint64).
      fee = 10000 \<and> collaboratorShare = 198000 \<and> creatorShare = 792000
    \<and> itxns afterSplitTip = itxns withSplit @ [Payment creatorC creatorShare 0]
    \<and> unat (amount (tipOf 1000000))
        = unat creatorShare + unat fee + unat collaboratorShare
    \<and> unat (totalFeesAccumulated afterSplitTip)
        = unat (totalFeesAccumulated withSplit) + unat fee
    \<and> emitted withSplit afterSplitTip = [Payment creatorC creatorShare 0]
    \<and> paidTo outsider (emitted withSplit afterSplitTip) = 0
    \<and> paidTo creatorC (emitted withSplit afterSplitTip) = 792000
    \<and> unat (amount (tipOf 1000000)) - paidOut (emitted withSplit afterSplitTip) = 208000)
   \<and> receiver (tipOf 1000000) = currentApplicationAddress (calledBy supporterS)
   \<and> (\<exists>paid. itxns afterSplitTip = itxns withSplit @ [Payment creatorC paid 0])"
proof -
  have tip: "sendTip (calledBy supporterS) creatorC (lit ''encore'') (tipOf 1000000) withSplit
      = Returned (lit ''Tip of 1000000 microALGO sent to creator'') afterSplitTip"
    by (simp add: sendTip_1Algo_split afterSplitTip_eq)
  have given: "amount (tipOf 1000000) = 1000000" "platformFeeBps withSplit = 100"
    by (simp_all add: tipOf_def withSplit_eq)
  have split: "revSplitPercent (locals withSplit creatorC) = Some 20"
    by (simp add: withSplit_eq)
  have active: "0 < (20 :: uint64)"
    by simp
  have other: "outsider \<noteq> creatorC"
    using accounts_distinct by simp
  from collaborator_share_retained [where cx = "calledBy supporterS" and creator = creatorC
      and message = "lit ''encore''" and tipPayment = "tipOf 1000000" and s = withSplit
      and r = "lit ''Tip of 1000000 microALGO sent to creator''" and s' = afterSplitTip
      and p = 20 and a = outsider, THEN conjunct1] tip split active
  obtain fee afterFee collab creatorShare :: uint64 where
    f: "unat fee = unat (amount (tipOf 1000000)) * unat (platformFeeBps withSplit) div 10000"
      "unat afterFee = unat (amount (tipOf 1000000)) - unat fee"
      "unat collab = unat afterFee * unat (20 :: uint64) div 100"
      "unat creatorShare = unat afterFee - unat collab"
    and g: "itxns afterSplitTip = itxns withSplit @ [Payment creatorC creatorShare 0]"
      "unat (amount (tipOf 1000000)) = unat creatorShare + unat fee + unat collab"
      "unat (totalFeesAccumulated afterSplitTip)
         = unat (totalFeesAccumulated withSplit) + unat fee"
    and h: "receiver (tipOf 1000000) = currentApplicationAddress (calledBy supporterS)"
      "emitted withSplit afterSplitTip = [Payment creatorC creatorShare 0]"
    and to: "paidTo outsider (emitted withSplit afterSplitTip)
         = (if outsider = creatorC then unat creatorShare else 0)"
    and bal: "unat (amount (tipOf 1000000)) - paidOut (emitted withSplit afterSplitTip)
         = unat fee + unat collab"
    by blast
  from f have v: "fee = 10000" "collab = 198000" "creatorShare = 792000"
    by (simp_all add: given word_unat_eq_iff)
  have none: "paidTo outsider (emitted withSplit afterSplitTip) = 0"
    using to other by simp
  have mine: "paidTo creatorC (emitted withSplit afterSplitTip) = 792000"
    by (simp add: h(2) v)
  have kept: "unat (amount (tipOf 1000000)) - paidOut (emitted withSplit afterSplitTip)
      = 208000"
    using bal by (simp add: v)
  have first: "\<exists>(fee :: uint64) (collaboratorShare :: uint64) (creatorShare :: uint64).
      fee = 10000 \<and> collaboratorShare = 198000 \<and> creatorShare = 792000
    \<and> itxns afterSplitTip = itxns withSplit @ [Payment creatorC creatorShare 0]
    \<and> unat (amount (tipOf 1000000))
        = unat creatorShare + unat fee + unat collaboratorShare
    \<and> unat (totalFeesAccumulated afterSplitTip)
        = unat (totalFeesAccumulated withSplit) + unat fee
    \<and> emitted withSplit afterSplitTip = [Payment creatorC creatorShare 0]
    \<and> paidTo outsider (emitted withSplit afterSplitTip) = 0
    \<and> paidTo creatorC (emitted withSplit afterSplitTip) = 792000
    \<and> unat (amount (tipOf 1000000)) - paidOut (emitted withSplit afterSplitTip) = 208000"
    apply (rule exI [of _ fee])
    apply (rule exI [of _ collab])
    apply (rule exI [of _ creatorShare])
    apply (intro conjI)
    apply (fact v g h none mine kept)+
    done
  have call: "dispatch (calledBy supporterS) (SendTip creatorC (lit ''encore'') (tipOf 1000000))
      withSplit = Returned (Str (lit ''Tip of 1000000 microALGO sent to creator'')) afterSplitTip"
    by (simp add: tip)
  have changed: "itxns afterSplitTip \<noteq> itxns withSplit"
    by (simp add: afterSplitTip_eq withSplit_eq)
  from collaborator_share_retained [where cx = "calledBy supporterS"
      and c = "SendTip creatorC (lit ''encore'') (tipOf 1000000)" and s = withSplit
      and v = "Str (lit ''Tip of 1000000 microALGO sent to creator'')" and s'' = afterSplitTip,
      THEN conjunct2] call changed
  have second: "\<exists>paid. itxns afterSplitTip = itxns withSplit @ [Payment creatorC paid 0]"
    by auto
  from first h(1) second show ?thesis by (intro conjI)
qed

subsection \<open>The pause switch\<close>

text \<open>
  Claim C6 says that while the contract is paused every mutating method except the
  admin's unpause and settings is rejected. That fails: \<open>transferAdmin\<close> and
  \<open>withdrawPlatformFees\<close> do not look at the pause flag. In \<open>pausedDeployed\<close>, the state
  reached by creating the application and pausing it, the admin starts an admin transfer
  and the call returns, having written \<open>pendingAdminAddress\<close>. On the paused state
  \<open>pausedTip\<close>, which holds 20,000 of accumulated fees, the admin withdraws them (a payment
  is submitted and \<open>totalFeesAccumulated\<close> drops to 0) and starts an admin transfer.
\<close>

theorem pause_gate_counterexample:
  "reachable pausedDeployed
   \<and> isPaused pausedDeployed = 1
   \<and> pendingAdminAddress pausedDeployed = []
   \<and> transferAdmin (calledBy admin) outsider pausedDeployed
       = Returned (lit ''Admin transfer initiated - new admin must call acceptAdmin()'')
           (pausedDeployed\<lparr>pendingAdminAddress := bytes outsider,
                      logs := logs pausedDeployed @ [''TipJar:AdminTransferInitiated'']\<rparr>)
   \<and> isPaused pausedTip = 1
   \<and> totalFeesAccumulated pausedTip = 20000
   \<and> withdrawPlatformFees (calledBy admin) 20000 pausedTip
       = Returned (lit ''Platform fees withdrawn'')
           (pausedTip\<lparr>itxns := itxns pausedTip @ [Payment admin 20000 0],
                      totalFeesAccumulated := 0,
                      logs := logs pausedTip @ [''TipJar:FeesWithdrawn'']\<rparr>)
   \<and> pendingAdminAddress pausedTip = []
   \<and> transferAdmin (calledBy admin) outsider pausedTip
       = Returned (lit ''Admin transfer initiated - new admin must call acceptAdmin()'')
           (pausedTip\<lparr>pendingAdminAddress := bytes outsider,
                      logs := logs pausedTip @ [''TipJar:AdminTransferInitiated'']\<rparr>)"
  apply (rule conjI)
   apply (rule reachable_pausedDeployed)
  apply (simp add: pausedTip_fields withdrawPlatformFees_def
        transferAdmin_def assertAdmin_def calledBy_def sub64_def submit_def log_def
        MIN_CONTRACT_BALANCE_def Let_def accounts_distinct pausedDeployed_eq deployed_eq)
  done

text \<open>
  Claim C6, amended. While \<open>isPaused\<close> is 1, \<open>registerCreator\<close>, \<open>updateProfile\<close>,
  \<open>setRevenueSplit\<close>, \<open>removeRevenueSplit\<close>, \<open>sendTip\<close> and \<open>mintBadge\<close> are rejected by the
  pause guard with nothing written; \<open>getPlatformStats\<close> returns, and \<open>unpauseContract\<close>
  called by the admin returns and clears the flag. A call that returns and changes the
  state of a paused contract is a call of one of the methods without the guard:
  \<open>pauseContract\<close>, \<open>unpauseContract\<close>, \<open>transferAdmin\<close>, \<open>acceptAdmin\<close>, \<open>setMinTipAmount\<close>,
  \<open>setPlatformFee\<close>, \<open>withdrawPlatformFees\<close> or \<open>setBadgeThresholds\<close>.
\<close>

theorem pause_gate:
  assumes "isPaused s = 1"
  shows "registerCreator cx name bio category profileImage s
           = Rejected (AssertFailed ''Contract is paused'') s
     \<and> updateProfile cx name bio category profileImage s
           = Rejected (AssertFailed ''Contract is paused'') s
     \<and> setRevenueSplit cx collaboratorAddr collaboratorName splitPercent s
           = Rejected (AssertFailed ''Contract is paused'') s
     \<and> removeRevenueSplit cx s = Rejected (AssertFailed ''Contract is paused'') s
     \<and> sendTip cx creator message tipPayment s
           = Rejected (AssertFailed ''Contract is paused'') s
     \<and> mintBadge cx supporter badgeTier creatorAddr s
           = Rejected (AssertFailed ''Contract is paused'') s
     \<and> getPlatformStats s = Returned (totalTipsProcessed s) s
     \<and> (bytes (sender cx) = adminAddress s \<longrightarrow>
          unpauseContract cx s
            = Returned (lit ''Contract unpaused'')
                (s\<lparr>isPaused := 0, logs := logs s @ [''TipJar:Unpaused'']\<rparr>))
     \<and> (dispatch cx c s = Returned v s' \<and> s' \<noteq> s \<longrightarrow>
          c = PauseContract \<or> c = UnpauseContract
          \<or> (\<exists>newAdmin. c = TransferAdmin newAdmin)
          \<or> c = AcceptAdmin \<or> (\<exists>newMin. c = SetMinTipAmount newMin)
          \<or> (\<exists>newFeeBps. c = SetPlatformFee newFeeBps)
          \<or> (\<exists>amt. c = WithdrawPlatformFees amt)
          \<or> (\<exists>bronze silver gold diamond.
                c = SetBadgeThresholds bronze silver gold diamond))"
proof -
  from assms have p: "assertNotPaused s = Some (AssertFailed ''Contract is paused'')"
    by (simp add: assertNotPaused_def)
  have gated:
    "registerCreator cx name bio category profileImage s
       = Rejected (AssertFailed ''Contract is paused'') s"
    "updateProfile cx name bio category profileImage s
       = Rejected (AssertFailed ''Contract is paused'') s"
    "setRevenueSplit cx collaboratorAddr collaboratorName splitPercent s
       = Rejected (AssertFailed ''Contract is paused'') s"
    "removeRevenueSplit cx s = Rejected (AssertFailed ''Contract is paused'') s"
    "sendTip cx creator message tipPayment s
       = Rejected (AssertFailed ''Contract is paused'') s"
    "mintBadge cx supporter badgeTier creatorAddr s
       = Rejected (AssertFailed ''Contract is paused'') s"
    by (simp_all add: p registerCreator_def updateProfile_def setRevenueSplit_def
          removeRevenueSplit_def sendTip_def mintBadge_def)
  have open1: "getPlatformStats s = Returned (totalTipsProcessed s) s"
    by (simp add: getPlatformStats_def)
  have open2: "bytes (sender cx) = adminAddress s \<longrightarrow>
          unpauseContract cx s
            = Returned (lit ''Contract unpaused'')
                (s\<lparr>isPaused := 0, logs := logs s @ [''TipJar:Unpaused'']\<rparr>)"
    by (simp add: unpauseContract_def assertAdmin_def log_def)
  have rest: "dispatch cx c s = Returned v s' \<and> s' \<noteq> s \<longrightarrow>
          c = PauseContract \<or> c = UnpauseContract
          \<or> (\<exists>newAdmin. c = TransferAdmin newAdmin)
          \<or> c = AcceptAdmin \<or> (\<exists>newMin. c = SetMinTipAmount newMin)
          \<or> (\<exists>newFeeBps. c = SetPlatformFee newFeeBps)
          \<or> (\<exists>amt. c = WithdrawPlatformFees amt)
          \<or> (\<exists>bronze silver gold diamond.
                c = SetBadgeThresholds bronze silver gold diamond)"
    using paused_Returned_exempt [of cx c s v s'] assms by blast
  from gated open1 open2 rest show ?thesis
    by (intro conjI)
qed

theorem pause_gate_witness:
  "registerCreator (calledBy outsider) (lit ''Olu'') (lit ''Songs'') (lit ''music'') [] pausedDeployed
     = Rejected (AssertFailed ''Contract is paused'') pausedDeployed
   \<and> sendTip (calledBy supporterS) creatorC (lit ''hi'') (tipOf 2000000) pausedDeployed
     = Rejected (AssertFailed ''Contract is paused'') pausedDeployed
   \<and> setRevenueSplit (calledBy creatorC) collaboratorAddress (lit ''Kai'') 20 pausedDeployed
     = Rejected (AssertFailed ''Contract is paused'') pausedDeployed
   \<and> mintBadge (calledBy admin) supporterS 1 creatorC pausedDeployed
     = Rejected (AssertFailed ''Contract is paused'') pausedDeployed
   \<and> getPlatformStats pausedDeployed = Returned 0 pausedDeployed
   \<and> unpauseContract (calledBy admin) pausedDeployed
     = Returned (lit ''Contract unpaused'')
         (pausedDeployed\<lparr>isPaused := 0, logs := logs pausedDeployed @ [''TipJar:Unpaused'']\<rparr>)
   \<and> dispatch (calledBy admin) (TransferAdmin outsider) pausedDeployed
     = Returned (Str (lit ''Admin transfer initiated - new admin must call acceptAdmin()''))
         (pausedDeployed\<lparr>pendingAdminAddress := bytes outsider,
                    logs := logs pausedDeployed @ [''TipJar:AdminTransferInitiated'']\<rparr>)"
proof -
  have p: "isPaused pausedDeployed = 1" by (rule pausedDeployed_fields)
  have adm: "bytes (sender (calledBy admin)) = adminAddress pausedDeployed"
    by (simp add: pausedDeployed_fields calledBy_def)
  have total: "totalTipsProcessed pausedDeployed = 0"
    by (simp add: pausedDeployed_eq deployed_eq)
  have call: "dispatch (calledBy admin) (TransferAdmin outsider) pausedDeployed
     = Returned (Str (lit ''Admin transfer initiated - new admin must call acceptAdmin()''))
         (pausedDeployed\<lparr>pendingAdminAddress := bytes outsider,
                    logs := logs pausedDeployed @ [''TipJar:AdminTransferInitiated'']\<rparr>)"
    by (simp add: transferAdmin_def assertAdmin_def calledBy_def log_def pausedDeployed_fields
          accounts_distinct)
  have moved: "pausedDeployed\<lparr>pendingAdminAddress := bytes outsider,
                    logs := logs pausedDeployed @ [''TipJar:AdminTransferInitiated'']\<rparr>
                 \<noteq> pausedDeployed"
  proof
    assume "pausedDeployed\<lparr>pendingAdminAddress := bytes outsider,
                    logs := logs pausedDeployed @ [''TipJar:AdminTransferInitiated'']\<rparr>
                 = pausedDeployed"
    then have "logs (pausedDeployed\<lparr>pendingAdminAddress := bytes outsider,
                    logs := logs pausedDeployed @ [''TipJar:AdminTransferInitiated'']\<rparr>)
                 = logs pausedDeployed"
      by simp
    then show False by simp
  qed
  note g1 = pause_gate [OF p, where cx = "calledBy outsider" and name = "lit ''Olu''"
      and bio = "lit ''Songs''" and category = "lit ''music''" and profileImage = "[]"]
  note g2 = pause_gate [OF p, where cx = "calledBy supporterS" and creator = creatorC
      and message = "lit ''hi''" and tipPayment = "tipOf 2000000"]
  note g3 = pause_gate [OF p, where cx = "calledBy creatorC"
      and collaboratorAddr = collaboratorAddress and collaboratorName = "lit ''Kai''"
      and splitPercent = 20]
  note g4 = pause_gate [OF p, where cx = "calledBy admin" and supporter = supporterS
      and badgeTier = 1 and creatorAddr = creatorC
      and c = "TransferAdmin outsider"
      and v = "Str (lit ''Admin transfer initiated - new admin must call acceptAdmin()'')"
      and s' = "pausedDeployed\<lparr>pendingAdminAddress := bytes outsider,
                    logs := logs pausedDeployed @ [''TipJar:AdminTransferInitiated'']\<rparr>"]
  from g1 g2 g3 g4 adm total call moved show ?thesis
    by simp
qed

subsection \<open>The admin handover\<close>

text \<open>
  Claim C7. \<open>transferAdmin\<close> is rejected unless the caller is the admin and the proposed
  account is not the admin, and when it returns it has written \<open>pendingAdminAddress\<close> only
  (and logged the event). \<open>acceptAdmin\<close> is rejected when nothing is pending and when the
  caller is not the pending account; when it returns, \<open>adminAddress\<close> is the caller and the
  pending slot is empty. In a state the contract can reach, the admin before a returning
  \<open>acceptAdmin\<close> is then refused by every admin-only method. \<open>createApplication\<close> sets
  \<open>adminAddress\<close> to its caller, and no call other than \<open>acceptAdmin\<close> changes it.
\<close>

theorem admin_handoff:
  "(bytes (sender cx) \<noteq> adminAddress s \<or> bytes newAdmin = adminAddress s \<longrightarrow>
      (\<exists>e. transferAdmin cx newAdmin s = Rejected e s))
   \<and> (transferAdmin cx newAdmin s = Returned r s1 \<longrightarrow>
        s1 = s\<lparr>pendingAdminAddress := bytes newAdmin,
                logs := logs s @ [''TipJar:AdminTransferInitiated'']\<rparr>)
   \<and> (pendingAdminAddress s = [] \<or> bytes (sender cx) \<noteq> pendingAdminAddress s \<longrightarrow>
        (\<exists>e. acceptAdmin cx s = Rejected e s))
   \<and> (acceptAdmin cx s = Returned r s2 \<longrightarrow>
        s2 = s\<lparr>adminAddress := bytes (sender cx), pendingAdminAddress := [],
                logs := logs s @ [''TipJar:AdminTransferred'']\<rparr>)
   \<and> (reachable s \<and> acceptAdmin cx s = Returned r s2
        \<and> bytes (sender old) = adminAddress s \<longrightarrow>
        pauseContract old s2
          = Rejected (AssertFailed ''Only admin can perform this action'') s2
        \<and> unpauseContract old s2
          = Rejected (AssertFailed ''Only admin can perform this action'') s2
        \<and> transferAdmin old someone s2
          = Rejected (AssertFailed ''Only admin can perform this action'') s2
        \<and> setMinTipAmount old newMin s2
          = Rejected (AssertFailed ''Only admin can perform this action'') s2
        \<and> setPlatformFee old newFeeBps s2
          = Rejected (AssertFailed ''Only admin can perform this action'') s2
        \<and> withdrawPlatformFees old amt s2
          = Rejected (AssertFailed ''Only admin can perform this action'') s2
        \<and> setBadgeThresholds old bronze silver gold diamond s2
          = Rejected (AssertFailed ''Only admin can perform this action'') s2)
   \<and> adminAddress (commit fresh (createApplication cx fresh)) = bytes (sender cx)
   \<and> (c \<noteq> AcceptAdmin \<longrightarrow> adminAddress (step cx c s) = adminAddress s)"
proof (intro conjI impI)
  assume "bytes (sender cx) \<noteq> adminAddress s \<or> bytes newAdmin = adminAddress s"
  then show "\<exists>e. transferAdmin cx newAdmin s = Rejected e s"
    by (auto simp: transferAdmin_def assertAdmin_def account.expand)
next
  assume "transferAdmin cx newAdmin s = Returned r s1"
  then show "s1 = s\<lparr>pendingAdminAddress := bytes newAdmin,
                logs := logs s @ [''TipJar:AdminTransferInitiated'']\<rparr>"
    by (simp add: transferAdmin_def assertAdmin_def log_def split: if_splits)
next
  assume "pendingAdminAddress s = [] \<or> bytes (sender cx) \<noteq> pendingAdminAddress s"
  then show "\<exists>e. acceptAdmin cx s = Rejected e s"
    by (auto simp: acceptAdmin_def)
next
  assume "acceptAdmin cx s = Returned r s2"
  then show "s2 = s\<lparr>adminAddress := bytes (sender cx), pendingAdminAddress := [],
                logs := logs s @ [''TipJar:AdminTransferred'']\<rparr>"
    by (simp add: acceptAdmin_def log_def split: if_splits)
next
  assume a: "reachable s \<and> acceptAdmin cx s = Returned r s2
        \<and> bytes (sender old) = adminAddress s"
  then have acc: "pendingAdminAddress s \<noteq> []" "bytes (sender cx) = pendingAdminAddress s"
    and s2: "adminAddress s2 = bytes (sender cx)"
    by (auto simp: acceptAdmin_def log_def split: if_splits)
  from a acc reachable_pending_differs [of s]
  have "bytes (sender old) \<noteq> adminAddress s2"
    by (simp add: s2)
  then have no: "assertAdmin old s2 = Some (AssertFailed ''Only admin can perform this action'')"
    by (simp add: assertAdmin_def)
  show "pauseContract old s2
          = Rejected (AssertFailed ''Only admin can perform this action'') s2"
    "unpauseContract old s2
          = Rejected (AssertFailed ''Only admin can perform this action'') s2"
    "transferAdmin old someone s2
          = Rejected (AssertFailed ''Only admin can perform this action'') s2"
    "setMinTipAmount old newMin s2
          = Rejected (AssertFailed ''Only admin can perform this action'') s2"
    "setPlatformFee old newFeeBps s2
          = Rejected (AssertFailed ''Only admin can perform this action'') s2"
    "withdrawPlatformFees old amt s2
          = Rejected (AssertFailed ''Only admin can perform this action'') s2"
    "setBadgeThresholds old bronze silver gold diamond s2
          = Rejected (AssertFailed ''Only admin can perform this action'') s2"
    by (simp_all add: no pauseContract_def unpauseContract_def transferAdmin_def
          setMinTipAmount_def setPlatformFee_def withdrawPlatformFees_def
          setBadgeThresholds_def)
next
  show "adminAddress (commit fresh (createApplication cx fresh)) = bytes (sender cx)"
    by (simp add: commit_def createApplication_def log_def)
next
  assume c: "c \<noteq> AcceptAdmin"
  show "adminAddress (step cx c s) = adminAddress s"
  proof (cases "dispatch cx c s")
    case (Rejected e p)
    then show ?thesis by (simp add: step_def commit_def)
  next
    case (Returned v s')
    then have "step cx c s = s'" by (simp add: step_def commit_def)
    with dispatch_admin [OF Returned] c show ?thesis by auto
  qed
qed

theorem admin_handoff_witness:
  "(\<exists>e. transferAdmin (calledBy outsider) supporterS deployed = Rejected e deployed)
   \<and> (\<exists>e. transferAdmin (calledBy admin) admin deployed = Rejected e deployed)
   \<and> pendingHandover
       = deployed\<lparr>pendingAdminAddress := bytes outsider,
                  logs := logs deployed @ [''TipJar:AdminTransferInitiated'']\<rparr>
   \<and> (\<exists>e. acceptAdmin (calledBy outsider) deployed = Rejected e deployed)
   \<and> (\<exists>e. acceptAdmin (calledBy supporterS) pendingHandover = Rejected e pendingHandover)
   \<and> handedOver
       = pendingHandover\<lparr>adminAddress := bytes (sender (calledBy outsider)),
                         pendingAdminAddress := [],
                         logs := logs pendingHandover @ [''TipJar:AdminTransferred'']\<rparr>
   \<and> pauseContract (calledBy admin) handedOver
       = Rejected (AssertFailed ''Only admin can perform this action'') handedOver
   \<and> withdrawPlatformFees (calledBy admin) 1 handedOver
       = Rejected (AssertFailed ''Only admin can perform this action'') handedOver
   \<and> adminAddress deployed = bytes admin
   \<and> adminAddress (step (calledBy admin) (TransferAdmin outsider) deployed)
       = adminAddress deployed"
proof -
  have t1: "bytes (sender (calledBy outsider)) \<noteq> adminAddress deployed"
    by (simp add: calledBy_def deployed_eq outsider_def admin_def)
  have t2: "bytes admin = adminAddress deployed"
    by (simp add: deployed_eq)
  have t3: "transferAdmin (calledBy admin) outsider deployed
      = Returned (lit ''Admin transfer initiated - new admin must call acceptAdmin()'')
          pendingHandover"
    by (simp add: pendingHandover_eq transferAdmin_def assertAdmin_def calledBy_def log_def
          deployed_eq accounts_distinct)
  have a1: "pendingAdminAddress deployed = []"
    by (simp add: deployed_eq)
  have a2: "bytes (sender (calledBy supporterS)) \<noteq> pendingAdminAddress pendingHandover"
    by (simp add: calledBy_def pendingHandover_eq outsider_def supporterS_def)
  have a3: "acceptAdmin (calledBy outsider) pendingHandover
      = Returned (lit ''Admin role accepted'') handedOver"
    by (simp add: handedOver_eq acceptAdmin_def calledBy_def log_def pendingHandover_eq
          outsider_def)
  have old: "bytes (sender (calledBy admin)) = adminAddress pendingHandover"
    by (simp add: calledBy_def pendingHandover_eq deployed_eq)
  note h = admin_handoff [where s = deployed and cx = "calledBy outsider"
      and newAdmin = supporterS, THEN conjunct1, rule_format]
  note i = admin_handoff [where s = deployed and cx = "calledBy admin"
      and newAdmin = admin, THEN conjunct1, rule_format]
  note j = admin_handoff [where s = deployed and cx = "calledBy admin"
      and newAdmin = outsider and ?s1.0 = pendingHandover
      and r = "lit ''Admin transfer initiated - new admin must call acceptAdmin()''",
      THEN conjunct2, THEN conjunct1, rule_format, OF t3]
  note k = admin_handoff [where s = deployed and cx = "calledBy outsider",
      THEN conjunct2, THEN conjunct2, THEN conjunct1, rule_format]
  note l = admin_handoff [where s = pendingHandover and cx = "calledBy supporterS",
      THEN conjunct2, THEN conjunct2, THEN conjunct1, rule_format]
  note m = admin_handoff [where s = pendingHandover and cx = "calledBy outsider"
      and ?s2.0 = handedOver and r = "lit ''Admin role accepted''" and old = "calledBy admin"
      and amt = 1,
      THEN conjunct2, THEN conjunct2, THEN conjunct2]
  note n = admin_handoff [where cx = "calledBy admin" and s = deployed
      and c = "TransferAdmin outsider",
      THEN conjunct2, THEN conjunct2, THEN conjunct2, THEN conjunct2, THEN conjunct2]
  from h t1 have c1: "\<exists>e. transferAdmin (calledBy outsider) supporterS deployed
      = Rejected e deployed"
    by blast
  from i t2 have c2: "\<exists>e. transferAdmin (calledBy admin) admin deployed = Rejected e deployed"
    by blast
  from k a1 have c4: "\<exists>e. acceptAdmin (calledBy outsider) deployed = Rejected e deployed"
    by blast
  from l a2 have c5: "\<exists>e. acceptAdmin (calledBy supporterS) pendingHandover
      = Rejected e pendingHandover"
    by blast
  from m a3 old reachable_pendingHandover
  have c6: "handedOver
       = pendingHandover\<lparr>adminAddress := bytes (sender (calledBy outsider)),
                         pendingAdminAddress := [],
                         logs := logs pendingHandover @ [''TipJar:AdminTransferred'']\<rparr>"
    and c7: "pauseContract (calledBy admin) handedOver
       = Rejected (AssertFailed ''Only admin can perform this action'') handedOver"
    and c8: "withdrawPlatformFees (calledBy admin) 1 handedOver
       = Rejected (AssertFailed ''Only admin can perform this action'') handedOver"
    by blast+
  from n have c9: "adminAddress deployed = bytes admin"
    and c10: "adminAddress (step (calledBy admin) (TransferAdmin outsider) deployed)
       = adminAddress deployed"
    by (simp_all add: deployed_def calledBy_def)
  from c1 c2 j c4 c5 c6 c7 c8 c9 c10 show ?thesis
    by (intro conjI)
qed

subsection \<open>Registration\<close>

text \<open>
  Claim C8. \<open>registerCreator\<close> called by an account whose \<open>isRegistered\<close> is 1 is rejected
  with nothing written, and the ledger keeps the state, \<open>totalCreators\<close> and the profile
  included. No call takes a registration away; a call changes an account's \<open>isRegistered\<close>
  only if it is that account's own returning \<open>registerCreator\<close>, which finds it not
  registered, sets it to 1 and adds one to \<open>totalCreators\<close>; \<open>totalCreators\<close> changes in no
  other call. So \<open>totalCreators\<close> is the number of registered accounts in every state the
  contract reaches, and after every call from a state in which the bookkeeping balances.
  The first registration needs the caller's \<open>isRegistered\<close> slot to hold a number other
  than 1: a caller whose slot holds nothing is rejected too, with nothing written, and as
  no other method writes the slot, in the states reached from creation nobody is
  registered and \<open>totalCreators\<close> is 0.
\<close>

theorem register_once:
  "(isRegistered (locals s (sender cx)) = Some 1 \<longrightarrow>
      (\<exists>e. registerCreator cx name bio category profileImage s = Rejected e s)
      \<and> step cx (RegisterCreator name bio category profileImage) s = s)
   \<and> (isRegistered (locals s a) = Some 1 \<longrightarrow>
        isRegistered (locals (step cx c s) a) = Some 1)
   \<and> (isRegistered (locals (step cx c s) a) \<noteq> isRegistered (locals s a) \<longrightarrow>
        (\<exists>n b g i. c = RegisterCreator n b g i) \<and> a = sender cx
        \<and> isRegistered (locals s a) \<noteq> Some 1
        \<and> isRegistered (locals (step cx c s) a) = Some 1
        \<and> unat (totalCreators (step cx c s)) = unat (totalCreators s) + 1)
   \<and> (totalCreators (step cx c s) \<noteq> totalCreators s \<longrightarrow>
        (\<exists>n b g i. c = RegisterCreator n b g i)
        \<and> isRegistered (locals s (sender cx)) \<noteq> Some 1
        \<and> isRegistered (locals (step cx c s) (sender cx)) = Some 1
        \<and> unat (totalCreators (step cx c s)) = unat (totalCreators s) + 1)
   \<and> (reachable s \<longrightarrow> unat (totalCreators s) = card (registered s))
   \<and> (conserved s \<longrightarrow>
        unat (totalCreators (step cx c s)) = card (registered (step cx c s)))
   \<and> (isRegistered (locals s (sender cx)) = None \<longrightarrow>
        (\<exists>e. registerCreator cx name bio category profileImage s = Rejected e s)
        \<and> step cx (RegisterCreator name bio category profileImage) s = s)
   \<and> (reachable s \<longrightarrow> registered s = {} \<and> totalCreators s = 0)"
proof -
  have unwritten: "isRegistered (locals s (sender cx)) = None \<longrightarrow>
      (\<exists>e. registerCreator cx name bio category profileImage s = Rejected e s)
      \<and> step cx (RegisterCreator name bio category profileImage) s = s"
    by (auto simp: registerCreator_def assertNotPaused_def step_def commit_def)
  have nobody: "reachable s \<longrightarrow> registered s = {} \<and> totalCreators s = 0"
  proof
    assume r: "reachable s"
    from reachable_unset [OF r] have e: "registered s = {}"
      by (simp add: registered_def unset_local_def)
    from reachable_conserved [OF r] e have "unat (totalCreators s) = 0"
      by (simp add: conserved_def)
    then have "totalCreators s = 0"
      by (simp add: unat_eq_0)
    with e show "registered s = {} \<and> totalCreators s = 0" by simp
  qed
  have again: "isRegistered (locals s (sender cx)) = Some 1 \<longrightarrow>
      (\<exists>e. registerCreator cx name bio category profileImage s = Rejected e s)
      \<and> step cx (RegisterCreator name bio category profileImage) s = s"
    by (auto simp: registerCreator_def assertNotPaused_def step_def commit_def)
  have eff: "step cx c s = s
      \<or> ((\<exists>n b g i. c = RegisterCreator n b g i)
          \<and> isRegistered (locals s (sender cx)) \<noteq> Some 1
          \<and> isRegistered (locals (step cx c s) (sender cx)) = Some 1
          \<and> (\<forall>a. a \<noteq> sender cx \<longrightarrow>
                isRegistered (locals (step cx c s) a) = isRegistered (locals s a))
          \<and> unat (totalCreators (step cx c s)) = unat (totalCreators s) + 1)
      \<or> ((\<forall>a. isRegistered (locals (step cx c s) a) = isRegistered (locals s a))
          \<and> totalCreators (step cx c s) = totalCreators s)"
  proof (cases "dispatch cx c s")
    case (Rejected e p)
    then show ?thesis by (simp add: step_def commit_def)
  next
    case (Returned v s')
    then have "step cx c s = s'" by (simp add: step_def commit_def)
    with dispatch_registration [OF Returned] show ?thesis by simp
  qed
  have stays: "isRegistered (locals s a) = Some 1 \<longrightarrow>
        isRegistered (locals (step cx c s) a) = Some 1"
    using eff by metis
  have only: "isRegistered (locals (step cx c s) a) \<noteq> isRegistered (locals s a) \<longrightarrow>
        (\<exists>n b g i. c = RegisterCreator n b g i) \<and> a = sender cx
        \<and> isRegistered (locals s a) \<noteq> Some 1
        \<and> isRegistered (locals (step cx c s) a) = Some 1
        \<and> unat (totalCreators (step cx c s)) = unat (totalCreators s) + 1"
    using eff by metis
  have count: "totalCreators (step cx c s) \<noteq> totalCreators s \<longrightarrow>
        (\<exists>n b g i. c = RegisterCreator n b g i)
        \<and> isRegistered (locals s (sender cx)) \<noteq> Some 1
        \<and> isRegistered (locals (step cx c s) (sender cx)) = Some 1
        \<and> unat (totalCreators (step cx c s)) = unat (totalCreators s) + 1"
    using eff by metis
  have card: "reachable s \<longrightarrow> unat (totalCreators s) = card (registered s)"
    using reachable_conserved [of s] by (simp add: conserved_def)
  have card': "conserved s \<longrightarrow>
        unat (totalCreators (step cx c s)) = card (registered (step cx c s))"
    using conserved_step [of s cx c] by (simp add: conserved_def)
  from again stays only count card card' unwritten nobody show ?thesis
    by (intro conjI)
qed

theorem register_once_witness:
  "(\<exists>e. registerCreator (calledBy creatorC) (lit ''Cleo again'') (lit ''More zines'')
          (lit ''art'') [] withCreator = Rejected e withCreator)
   \<and> step (calledBy creatorC)
        (RegisterCreator (lit ''Cleo again'') (lit ''More zines'') (lit ''art'') [])
        withCreator = withCreator
   \<and> isRegistered (locals afterTip creatorC) = Some 1
   \<and> isRegistered (locals withSlot creatorC) = Some 0
   \<and> step (calledBy creatorC)
        (RegisterCreator (lit ''Cleo'') (lit ''Prints and zines'') (lit ''art'') []) withSlot
       = withCreator\<lparr>logs := logs withCreator @ [''TipJar:CreatorRegistered'']\<rparr>
   \<and> isRegistered (locals withCreator creatorC) = Some 1
   \<and> unat (totalCreators withCreator) = unat (totalCreators withSlot) + 1
   \<and> card (registered pausedDeployed) = 0
   \<and> card (registered afterTip) = 1
   \<and> isRegistered (locals deployed creatorC) = None
   \<and> (\<exists>e. registerCreator (calledBy creatorC) (lit ''Cleo'') (lit ''Prints and zines'')
            (lit ''art'') [] deployed = Rejected e deployed)
   \<and> step (calledBy creatorC)
        (RegisterCreator (lit ''Cleo'') (lit ''Prints and zines'') (lit ''art'') []) deployed
       = deployed
   \<and> registered pausedDeployed = {} \<and> totalCreators pausedDeployed = 0"
proof -
  have empty: "isRegistered (locals deployed (sender (calledBy creatorC))) = None"
    by (simp add: deployed_eq calledBy_def unset_local_def)
  have empty': "isRegistered (locals deployed creatorC) = None"
    by (simp add: deployed_eq unset_local_def)
  note first = register_once [where s = deployed and cx = "calledBy creatorC"
      and name = "lit ''Cleo''" and bio = "lit ''Prints and zines''"
      and category = "lit ''art''" and profileImage = "[]",
      THEN conjunct2, THEN conjunct2, THEN conjunct2, THEN conjunct2, THEN conjunct2,
      THEN conjunct2, THEN conjunct1, rule_format, OF empty]
  note nobody = register_once [where s = pausedDeployed,
      THEN conjunct2, THEN conjunct2, THEN conjunct2, THEN conjunct2, THEN conjunct2,
      THEN conjunct2, THEN conjunct2, rule_format, OF reachable_pausedDeployed]
  have reg: "isRegistered (locals withCreator (sender (calledBy creatorC))) = Some 1"
    by (simp add: calledBy_def withCreator_eq profileC_def)
  have reg': "isRegistered (locals withCreator creatorC) = Some 1"
    by (simp add: withCreator_eq profileC_def)
  have before: "isRegistered (locals withSlot creatorC) = Some 0"
    by (simp add: withSlot_eq)
  have w: "step (calledBy creatorC)
        (RegisterCreator (lit ''Cleo'') (lit ''Prints and zines'') (lit ''art'') []) withSlot
       = withCreator\<lparr>logs := logs withCreator @ [''TipJar:CreatorRegistered'']\<rparr>"
    by (simp add: step_def commit_def registerCreator_withSlot)
  have t: "step (calledBy supporterS) (SendTip creatorC (lit ''thanks'') (tipOf 2000000))
      withCreator = afterTip"
    by (simp add: afterTip_def)
  have changed: "isRegistered (locals (withCreator\<lparr>logs := logs withCreator
        @ [''TipJar:CreatorRegistered'']\<rparr>) creatorC)
      \<noteq> isRegistered (locals withSlot creatorC)"
    by (simp add: reg' before)
  have counted: "totalCreators (withCreator\<lparr>logs := logs withCreator
        @ [''TipJar:CreatorRegistered'']\<rparr>) \<noteq> totalCreators withSlot"
    by (simp add: withCreator_eq withSlot_eq)
  note again = register_once [where s = withCreator and cx = "calledBy creatorC"
      and name = "lit ''Cleo again''" and bio = "lit ''More zines''"
      and category = "lit ''art''" and profileImage = "[]",
      THEN conjunct1, rule_format, OF reg]
  note stays = register_once [where s = withCreator and cx = "calledBy supporterS"
      and c = "SendTip creatorC (lit ''thanks'') (tipOf 2000000)" and a = creatorC,
      THEN conjunct2, THEN conjunct1, rule_format, unfolded t, OF reg']
  note only = register_once [where s = withSlot and cx = "calledBy creatorC"
      and c = "RegisterCreator (lit ''Cleo'') (lit ''Prints and zines'') (lit ''art'') []"
      and a = creatorC,
      THEN conjunct2, THEN conjunct2, THEN conjunct1, rule_format, unfolded w, OF changed]
  note count = register_once [where s = withSlot and cx = "calledBy creatorC"
      and c = "RegisterCreator (lit ''Cleo'') (lit ''Prints and zines'') (lit ''art'') []",
      THEN conjunct2, THEN conjunct2, THEN conjunct2, THEN conjunct1, rule_format,
      unfolded w, OF counted]
  note card = register_once [where s = pausedDeployed,
      THEN conjunct2, THEN conjunct2, THEN conjunct2, THEN conjunct2, THEN conjunct1,
      rule_format, OF reachable_pausedDeployed]
  note card' = register_once [where s = withCreator and cx = "calledBy supporterS"
      and c = "SendTip creatorC (lit ''thanks'') (tipOf 2000000)",
      THEN conjunct2, THEN conjunct2, THEN conjunct2, THEN conjunct2, THEN conjunct2,
      THEN conjunct1, rule_format, unfolded t, OF conserved_withCreator]
  have none: "unat (totalCreators pausedDeployed) = 0"
    by (simp add: pausedDeployed_eq deployed_eq)
  have one: "unat (totalCreators afterTip) = 1"
    by (simp add: afterTip_eq)
  from again stays only count card card' none one before w reg' first nobody empty'
  show ?thesis
    by simp
qed

subsection \<open>The collaborator address\<close>




subsection \<open>The supporter of a badge\<close>

text \<open>
  Claim C10. For any two supporter accounts, \<open>mintBadge\<close> with the same caller, tier,
  creator and state gives the same outcome: both calls are rejected alike, or both
  return the same string and the same state. When it returns, the call has submitted
  one inner transaction, the creation of the badge asset, in which the supporter does
  not occur (there is no transfer of the asset), and \<open>totalBadgesMinted\<close> has grown by one.
\<close>

theorem mintBadge_ignores_supporter:
  "mintBadge cx supporter1 badgeTier creatorAddr s
     = mintBadge cx supporter2 badgeTier creatorAddr s
   \<and> (mintBadge cx supporter1 badgeTier creatorAddr s = Returned r s' \<longrightarrow>
        mintBadge cx supporter2 badgeTier creatorAddr s = Returned r s'
        \<and> r = lit (tierName badgeTier @ '' badge minted successfully'')
        \<and> s' = s\<lparr>itxns := itxns s @
                     [AssetConfig 1 0 False (lit ''TJBADGE'')
                        (lit (''TipJar '' @ tierName badgeTier @ '' Badge'')) 0],
                  totalBadgesMinted := totalBadgesMinted s + 1,
                  logs := logs s @ [''TipJar:BadgeMinted'']\<rparr>
        \<and> unat (totalBadgesMinted s') = unat (totalBadgesMinted s) + 1)
   \<and> (mintBadge cx supporter1 badgeTier creatorAddr s = Rejected e p \<longrightarrow>
        mintBadge cx supporter2 badgeTier creatorAddr s = Rejected e p)"
proof -
  have same: "mintBadge cx supporter1 badgeTier creatorAddr s
     = mintBadge cx supporter2 badgeTier creatorAddr s"
    by (simp add: mintBadge_def)
  have ok: "mintBadge cx supporter1 badgeTier creatorAddr s = Returned r s' \<longrightarrow>
        mintBadge cx supporter2 badgeTier creatorAddr s = Returned r s'
        \<and> r = lit (tierName badgeTier @ '' badge minted successfully'')
        \<and> s' = s\<lparr>itxns := itxns s @
                     [AssetConfig 1 0 False (lit ''TJBADGE'')
                        (lit (''TipJar '' @ tierName badgeTier @ '' Badge'')) 0],
                  totalBadgesMinted := totalBadgesMinted s + 1,
                  logs := logs s @ [''TipJar:BadgeMinted'']\<rparr>
        \<and> unat (totalBadgesMinted s') = unat (totalBadgesMinted s) + 1"
  proof
    assume m: "mintBadge cx supporter1 badgeTier creatorAddr s = Returned r s'"
    from mintBadge_Returned [OF m] m same
    show "mintBadge cx supporter2 badgeTier creatorAddr s = Returned r s'
        \<and> r = lit (tierName badgeTier @ '' badge minted successfully'')
        \<and> s' = s\<lparr>itxns := itxns s @
                     [AssetConfig 1 0 False (lit ''TJBADGE'')
                        (lit (''TipJar '' @ tierName badgeTier @ '' Badge'')) 0],
                  totalBadgesMinted := totalBadgesMinted s + 1,
                  logs := logs s @ [''TipJar:BadgeMinted'']\<rparr>
        \<and> unat (totalBadgesMinted s') = unat (totalBadgesMinted s) + 1"
      by (simp add: unat_word_ariths)
  qed
  have no: "mintBadge cx supporter1 badgeTier creatorAddr s = Rejected e p \<longrightarrow>
        mintBadge cx supporter2 badgeTier creatorAddr s = Rejected e p"
    using same by simp
  from same ok no show ?thesis by (intro conjI)
qed

theorem mintBadge_ignores_supporter_witness:
  "mintBadge (calledBy admin) supporterS 3 creatorC withCreator
     = mintBadge (calledBy admin) outsider 3 creatorC withCreator
   \<and> mintBadge (calledBy admin) outsider 3 creatorC withCreator
     = Returned (lit ''Gold badge minted successfully'')
         (withCreator\<lparr>itxns := itxns withCreator @
              [AssetConfig 1 0 False (lit ''TJBADGE'') (lit ''TipJar Gold Badge'') 0],
            totalBadgesMinted := 1,
            logs := logs withCreator @ [''TipJar:BadgeMinted'']\<rparr>)
   \<and> mintBadge (calledBy supporterS) outsider 3 creatorC withCreator
     = Rejected (AssertFailed ''Only admin or creator can mint badges'') withCreator
   \<and> mintBadge (calledBy admin) outsider 3 creatorC deployed
     = Rejected ValueNotSet deployed"
proof -
  have a: "mintBadge (calledBy admin) supporterS 3 creatorC withCreator
     = Returned (lit ''Gold badge minted successfully'')
         (withCreator\<lparr>itxns := itxns withCreator @
              [AssetConfig 1 0 False (lit ''TJBADGE'') (lit ''TipJar Gold Badge'') 0],
            totalBadgesMinted := 1,
            logs := logs withCreator @ [''TipJar:BadgeMinted'']\<rparr>)"
    by (simp add: mintBadge_def assertNotPaused_def calledBy_def withCreator_eq submit_def
          add64_def log_def tierName_def profileC_def)
  have b: "mintBadge (calledBy supporterS) supporterS 3 creatorC withCreator
     = Rejected (AssertFailed ''Only admin or creator can mint badges'') withCreator"
    by (simp add: mintBadge_def assertNotPaused_def calledBy_def withCreator_eq
          supporterS_def admin_def creatorC_def)
  have c: "mintBadge (calledBy admin) supporterS 3 creatorC deployed
     = Rejected ValueNotSet deployed"
    by (simp add: mintBadge_def assertNotPaused_def calledBy_def deployed_eq unset_local_def)
  note i = mintBadge_ignores_supporter [where cx = "calledBy admin"
      and ?supporter1.0 = supporterS and ?supporter2.0 = outsider and badgeTier = 3
      and creatorAddr = creatorC and s = withCreator
      and r = "lit ''Gold badge minted successfully''"
      and s' = "withCreator\<lparr>itxns := itxns withCreator @
              [AssetConfig 1 0 False (lit ''TJBADGE'') (lit ''TipJar Gold Badge'') 0],
            totalBadgesMinted := 1,
            logs := logs withCreator @ [''TipJar:BadgeMinted'']\<rparr>"]
  note j = mintBadge_ignores_supporter [where cx = "calledBy supporterS"
      and ?supporter1.0 = supporterS and ?supporter2.0 = outsider and badgeTier = 3
      and creatorAddr = creatorC and s = withCreator
      and e = "AssertFailed ''Only admin or creator can mint badges''" and p = withCreator]
  note k = mintBadge_ignores_supporter [where cx = "calledBy admin"
      and ?supporter1.0 = supporterS and ?supporter2.0 = outsider and badgeTier = 3
      and creatorAddr = creatorC and s = deployed
      and e = ValueNotSet and p = deployed]
  from i a have "mintBadge (calledBy admin) supporterS 3 creatorC withCreator
     = mintBadge (calledBy admin) outsider 3 creatorC withCreator"
    "mintBadge (calledBy admin) outsider 3 creatorC withCreator
     = Returned (lit ''Gold badge minted successfully'')
         (withCreator\<lparr>itxns := itxns withCreator @
              [AssetConfig 1 0 False (lit ''TJBADGE'') (lit ''TipJar Gold Badge'') 0],
            totalBadgesMinted := 1,
            logs := logs withCreator @ [''TipJar:BadgeMinted'']\<rparr>)"
    by blast+
  moreover from j b have "mintBadge (calledBy supporterS) outsider 3 creatorC withCreator
     = Rejected (AssertFailed ''Only admin or creator can mint badges'') withCreator"
    by blast
  moreover from k c have "mintBadge (calledBy admin) outsider 3 creatorC deployed
     = Rejected ValueNotSet deployed"
    by blast
  ultimately show ?thesis by (intro conjI)
qed

end
